theory Spec2Isabelle
  imports Complex_Main
begin

section \<open>JavaScript values used by the backend\<close>

text \<open>
  The backend (\<^verbatim>\<open>src/backend/server.js\<close>) reads fields of JSON documents. A field that
  holds a string, or is absent, is a \<open>string option\<close> (\<open>None\<close> is \<open>undefined\<close> or
  \<open>null\<close>). The tests \<^verbatim>\<open>if (x)\<close>, \<^verbatim>\<open>!x\<close> and \<^verbatim>\<open>x || d\<close> ask whether the value is
  truthy: an absent value and the empty string are not.
\<close>

definition truthy :: "string option \<Rightarrow> bool" where
  "truthy v = (case v of None \<Rightarrow> False | Some s \<Rightarrow> s \<noteq> [])"

text \<open>\<^verbatim>\<open>x || d\<close> with a string default.\<close>

definition or_else :: "string option \<Rightarrow> string \<Rightarrow> string" where
  "or_else v d = (case v of None \<Rightarrow> d | Some s \<Rightarrow> if s = [] then d else s)"

text \<open>\<^verbatim>\<open>x || null\<close>.\<close>

definition or_null :: "string option \<Rightarrow> string option" where
  "or_null v = (if truthy v then v else None)"

text \<open>The value of a field that has been tested to be truthy.\<close>

definition str :: "string option \<Rightarrow> string" where
  "str v = (case v of None \<Rightarrow> [] | Some s \<Rightarrow> s)"

text \<open>
  Folding of the ASCII letters to lower case. Express compares the literal segments
  of a route with the request path without regard to the case of ASCII letters.
  This is not \<^verbatim>\<open>String.prototype.toLowerCase\<close>, which folds every cased letter and
  belongs to the JavaScript runtime: where the backend calls it, it is a parameter of
  the model, named \<open>toLowerCase\<close>.
\<close>

definition lower_char :: "char \<Rightarrow> char" where
  "lower_char c =
     (case map_of (zip ''ABCDEFGHIJKLMNOPQRSTUVWXYZ'' ''abcdefghijklmnopqrstuvwxyz'') c of
        None \<Rightarrow> c
      | Some d \<Rightarrow> d)"

definition ascii_lower :: "string \<Rightarrow> string" where
  "ascii_lower s = map lower_char s"

definition startsWith :: "string \<Rightarrow> string \<Rightarrow> bool" where
  "startsWith s p = (take (length p) s = p)"

text \<open>\<^verbatim>\<open>url.split('/').pop()\<close>: what follows the last slash (the whole string without one).\<close>

definition last_segment :: "string \<Rightarrow> string" where
  "last_segment u = rev (takeWhile (\<lambda>c. c \<noteq> CHR ''/'') (rev u))"

text \<open>\<^verbatim>\<open>xs.join(sep)\<close> on strings.\<close>

fun join :: "string \<Rightarrow> string list \<Rightarrow> string" where
  "join sep [] = []"
| "join sep [x] = x"
| "join sep (x # y # ys) = x @ sep @ join sep (y # ys)"

text \<open>\<^verbatim>\<open>xs.find(p)\<close> followed by an assignment to a field of the element found: the
  first element that satisfies \<open>p\<close> is replaced, the store keeps its order.\<close>

fun update_first :: "('a \<Rightarrow> bool) \<Rightarrow> ('a \<Rightarrow> 'a) \<Rightarrow> 'a list \<Rightarrow> 'a list" where
  "update_first p f [] = []"
| "update_first p f (x # xs) = (if p x then f x # xs else x # update_first p f xs)"

text \<open>
  The \<^verbatim>\<open>topic\<close> of an inbound webhook is used both as a truth value and as the receiver
  of \<^verbatim>\<open>startsWith\<close>, so the model keeps every kind of JSON value it can hold.
  \<open>Object\<close> stands for any object or array.
\<close>

datatype jsvalue = Undefined | Null | Boolean bool | Number rat | String string | Object

fun truthy_value :: "jsvalue \<Rightarrow> bool" where
  "truthy_value Undefined = False"
| "truthy_value Null = False"
| "truthy_value (Boolean b) = b"
| "truthy_value (Number n) = (n \<noteq> 0)"
| "truthy_value (String s) = (s \<noteq> [])"
| "truthy_value Object = True"

fun is_String :: "jsvalue \<Rightarrow> bool" where
  "is_String (String s) = True"
| "is_String v = False"

section \<open>Errors\<close>

text \<open>
  A thrown JavaScript error: its \<^verbatim>\<open>message\<close> and, for the errors of the provider's
  client library, the list \<^verbatim>\<open>body._embedded.errors\<close>.
\<close>

record apiError =
  e_code :: string
  e_message :: string
  e_path :: string

datatype exn = Exn string "apiError list option"

fun message :: "exn \<Rightarrow> string" where
  "message (Exn m es) = m"

fun embedded_errors :: "exn \<Rightarrow> apiError list option" where
  "embedded_errors (Exn m es) = es"

text \<open>The \<^verbatim>\<open>TypeError\<close> of a property read or a method call on a value that has none.\<close>

definition typeError :: "string \<Rightarrow> exn" where
  "typeError what = Exn what None"

section \<open>Documents of the provider\<close>

text \<open>
  The documents that the provider returns, with the fields the backend reads. Every
  field read from a document may be absent. \<open>NoBody\<close> is the empty body of a
  \<^verbatim>\<open>201 Created\<close>.
\<close>

record customerDoc =
  cd_self :: string
  cd_firstName :: "string option"
  cd_lastName :: "string option"
  cd_email :: "string option"
  cd_phone :: "string option"
  cd_type :: "string option"
  cd_status :: "string option"
  cd_created :: "string option"

record fundingSourceDoc =
  fd_self :: string
  fd_customer :: "string option"
  fd_name :: "string option"
  fd_type :: "string option"
  fd_bankAccountType :: "string option"
  fd_status :: "string option"
  fd_bankName :: "string option"
  fd_created :: "string option"
  fd_removed :: bool

record money =
  currency :: string
  amount_value :: string

record transferDoc =
  td_status :: "string option"
  td_amount :: "money option"
  td_created :: "string option"

datatype doc =
    NoBody
  | CustomerB customerDoc
  | CustomersB "customerDoc list"
  | FundingSourceB fundingSourceDoc
  | FundingSourcesB "fundingSourceDoc list"
  | TransferB transferDoc
  | IavTokenB "string option"

text \<open>Property reads on whatever document came back; a missing property is \<open>None\<close>.\<close>

fun status_of :: "doc \<Rightarrow> string option" where
  "status_of (CustomerB c) = cd_status c"
| "status_of (FundingSourceB f) = fd_status f"
| "status_of (TransferB t) = td_status t"
| "status_of _ = None"

fun firstName_of :: "doc \<Rightarrow> string option" where
  "firstName_of (CustomerB c) = cd_firstName c"
| "firstName_of _ = None"

fun lastName_of :: "doc \<Rightarrow> string option" where
  "lastName_of (CustomerB c) = cd_lastName c"
| "lastName_of _ = None"

fun email_of :: "doc \<Rightarrow> string option" where
  "email_of (CustomerB c) = cd_email c"
| "email_of _ = None"

fun type_of :: "doc \<Rightarrow> string option" where
  "type_of (CustomerB c) = cd_type c"
| "type_of (FundingSourceB f) = fd_type f"
| "type_of _ = None"

fun created_of :: "doc \<Rightarrow> string option" where
  "created_of (CustomerB c) = cd_created c"
| "created_of (FundingSourceB f) = fd_created f"
| "created_of (TransferB t) = td_created t"
| "created_of _ = None"

fun name_of :: "doc \<Rightarrow> string option" where
  "name_of (FundingSourceB f) = fd_name f"
| "name_of _ = None"

fun bankAccountType_of :: "doc \<Rightarrow> string option" where
  "bankAccountType_of (FundingSourceB f) = fd_bankAccountType f"
| "bankAccountType_of _ = None"

fun bankName_of :: "doc \<Rightarrow> string option" where
  "bankName_of (FundingSourceB f) = fd_bankName f"
| "bankName_of _ = None"

fun amount_of :: "doc \<Rightarrow> money option" where
  "amount_of (TransferB t) = td_amount t"
| "amount_of _ = None"

fun token_of :: "doc \<Rightarrow> string option" where
  "token_of (IavTokenB t) = t"
| "token_of _ = None"

text \<open>\<^verbatim>\<open>body._links?.customer?.href\<close>.\<close>

fun customer_link :: "doc \<Rightarrow> string option" where
  "customer_link (FundingSourceB f) = fd_customer f"
| "customer_link _ = None"

text \<open>\<^verbatim>\<open>body._embedded?.customers\<close> and \<^verbatim>\<open>body._embedded['funding-sources']\<close>.\<close>

fun embedded_customers :: "doc \<Rightarrow> customerDoc list option" where
  "embedded_customers (CustomersB cs) = Some cs"
| "embedded_customers _ = None"

fun embedded_funding_sources :: "doc \<Rightarrow> fundingSourceDoc list option" where
  "embedded_funding_sources (FundingSourcesB fs) = Some fs"
| "embedded_funding_sources _ = None"

section \<open>Calls to the provider\<close>

record customerBody =
  cb_firstName :: string
  cb_lastName :: string
  cb_email :: string
  cb_phone :: "string option"
  cb_type :: "string option"
  cb_businessName :: "string option"
  cb_businessType :: "string option"

record verificationBody =
  vb_firstName :: "string option"
  vb_lastName :: "string option"
  vb_email :: "string option"
  vb_type :: string
  vb_address1 :: string
  vb_city :: string
  vb_state :: string
  vb_postalCode :: string
  vb_dateOfBirth :: string
  vb_ssn :: string

record fundingSourceBody =
  fb_routingNumber :: string
  fb_accountNumber :: string
  fb_bankAccountType :: string
  fb_name :: string

text \<open>The amount of a transfer body is kept as the number; the source sends
  \<^verbatim>\<open>amount.toString()\<close>.\<close>

record transferBody =
  tb_source :: string
  tb_destination :: string
  tb_currency :: string
  tb_value :: rat

datatype payload =
    NoPayload
  | CustomerP customerBody
  | VerificationP verificationBody
  | FundingSourceP fundingSourceBody
  | TransferP transferBody

text \<open>The client of the provider's library: the credentials it was built with
  (the environment is fixed).\<close>

record client =
  client_key :: string
  client_secret :: string

datatype call =
    AuthClient client
  | Get string
  | Post string payload
  | Delete string

fun is_Post :: "call \<Rightarrow> bool" where
  "is_Post (Post u p) = True"
| "is_Post _ = False"

record token =
  access_token :: string
  expires_in :: int

record response =
  location :: string
  body :: doc

text \<open>
  The provider is outside the repository. It is a parameter of the model: given the
  time of the call and the calls made so far, it answers a call with an error or a
  result, and with the time at which the answer arrives.
\<close>

record provider =
  auth :: "int \<Rightarrow> call list \<Rightarrow> client \<Rightarrow> (exn + token) \<times> int"
  answer :: "int \<Rightarrow> call list \<Rightarrow> call \<Rightarrow> (exn + response) \<times> int"

section \<open>In-memory storage\<close>

record dwollaConfig =
  key :: "string option"
  secret :: "string option"
  accessToken :: "string option"
  expiresIn :: "int option"
  tokenCreatedAt :: "int option"

record customerRecord =
  c_id :: string
  c_url :: string
  c_firstName :: "string option"
  c_lastName :: "string option"
  c_email :: "string option"
  c_phone :: "string option"
  c_type :: string
  c_status :: "string option"
  c_createdAt :: "string option"

record transferRecord =
  t_id :: string
  t_url :: string
  t_status :: "string option"
  t_amount :: "money option"
  t_created :: "string option"
  t_sourceFundingSourceUrl :: string
  t_destinationFundingSourceUrl :: string

text \<open>\<^verbatim>\<open>event._links\<close>, read as \<^verbatim>\<open>_links?.customer?.href\<close> and
  \<^verbatim>\<open>_links?.resource?.href\<close>.\<close>

record links =
  customer_href :: "string option"
  resource_href :: "string option"

text \<open>\<open>LocalId t\<close> is the string \<^verbatim>\<open>local-\<close> followed by the time \<open>t\<close>;
  \<open>IsoTime t\<close> is \<^verbatim>\<open>new Date().toISOString()\<close> at the time \<open>t\<close>.\<close>

datatype webhookId = GivenId string | LocalId int

datatype stamp = GivenTime string | IsoTime int

record webhookRecord =
  w_id :: webhookId
  w_topic :: jsvalue
  w_resourceId :: "string option"
  w_timestamp :: stamp
  w_links :: "links option"
  w_created :: stamp

text \<open>
  The globals of the server, the clock read by \<^verbatim>\<open>Date.now()\<close>, and the calls made
  to the provider so far.
\<close>

record state =
  dwollaConfig :: dwollaConfig
  customersStore :: "customerRecord list"
  transfersStore :: "transferRecord list"
  webhooksStore :: "webhookRecord list"
  dwollaClient :: "client option"
  clock :: int
  trace :: "call list"

definition initial_state :: "int \<Rightarrow> state" where
  "initial_state t =
     \<lparr>dwollaConfig = \<lparr>key = None, secret = None, accessToken = None, expiresIn = None,
                       tokenCreatedAt = None\<rparr>,
      customersStore = [], transfersStore = [], webhooksStore = [],
      dwollaClient = None, clock = t, trace = []\<rparr>"

section \<open>Token management\<close>

definition initializeDwollaClient :: "string \<Rightarrow> string \<Rightarrow> state \<Rightarrow> state" where
  "initializeDwollaClient k s st =
     st\<lparr>dwollaClient := Some \<lparr>client_key = k, client_secret = s\<rparr>\<rparr>"

text \<open>In arithmetic \<^verbatim>\<open>null\<close> counts as 0.\<close>

definition num :: "int option \<Rightarrow> int" where
  "num v = (case v of None \<Rightarrow> 0 | Some n \<Rightarrow> n)"

text \<open>\<^verbatim>\<open>(now - dwollaConfig.tokenCreatedAt) / 1000\<close>, in seconds.\<close>

definition tokenAge :: "dwollaConfig \<Rightarrow> int \<Rightarrow> rat" where
  "tokenAge cfg now = of_int (now - num (tokenCreatedAt cfg)) / 1000"

definition isExpired :: "dwollaConfig \<Rightarrow> int \<Rightarrow> bool" where
  "isExpired cfg now =
     (\<not> truthy (accessToken cfg) \<or> tokenAge cfg now \<ge> of_int (num (expiresIn cfg) - 60))"

definition getValidAccessToken :: "provider \<Rightarrow> state \<Rightarrow> (exn + string option) \<times> state" where
  "getValidAccessToken prov st =
     (if \<not> truthy (key (dwollaConfig st)) \<or> \<not> truthy (secret (dwollaConfig st)) then
        (Inl (Exn ''Dwolla credentials not configured. Please set up API key and secret.'' None), st)
      else if isExpired (dwollaConfig st) (clock st) then
        (case dwollaClient st of
           None \<Rightarrow>
             (Inl (Exn ''Failed to obtain Dwolla access token. Check your API credentials.'' None), st)
         | Some cl \<Rightarrow>
             (case auth prov (clock st) (trace st) cl of
                (Inl e, t) \<Rightarrow>
                  (Inl (Exn ''Failed to obtain Dwolla access token. Check your API credentials.'' None),
                   st\<lparr>clock := t, trace := trace st @ [AuthClient cl]\<rparr>)
              | (Inr tok, t) \<Rightarrow>
                  (Inr (Some (access_token tok)),
                   st\<lparr>dwollaConfig := (dwollaConfig st)
                         \<lparr>accessToken := Some (access_token tok),
                          expiresIn := Some (expires_in tok),
                          tokenCreatedAt := Some t\<rparr>,
                      clock := t, trace := trace st @ [AuthClient cl]\<rparr>)))
      else (Inr (accessToken (dwollaConfig st)), st))"

text \<open>
  \<^verbatim>\<open>dwollaRequest(method, url, body)\<close>; the method and its arguments are the \<open>call\<close>.
  Without a client the method call on \<^verbatim>\<open>null\<close> throws.
\<close>

definition dwollaRequest :: "provider \<Rightarrow> call \<Rightarrow> state \<Rightarrow> (exn + response) \<times> state" where
  "dwollaRequest prov c st =
     (case getValidAccessToken prov st of
        (Inl e, st1) \<Rightarrow> (Inl e, st1)
      | (Inr tk, st1) \<Rightarrow>
          (case dwollaClient st1 of
             None \<Rightarrow> (Inl (typeError ''Cannot read properties of null''), st1)
           | Some cl \<Rightarrow>
               (case answer prov (clock st1) (trace st1) c of
                  (r, t) \<Rightarrow> (r, st1\<lparr>clock := t, trace := trace st1 @ [c]\<rparr>))))"

section \<open>Requests and replies\<close>

text \<open>
  \<^verbatim>\<open>req.body\<close>, parsed from JSON: one object, of which each handler reads the fields
  it names. Fields are strings when present; \<^verbatim>\<open>amount\<close> is a number,
  \<^verbatim>\<open>allowUnverified\<close> a boolean, \<^verbatim>\<open>topic\<close> any value, and \<^verbatim>\<open>_links\<close> is \<open>Some\<close>
  for any truthy value.
\<close>

record reqBody =
  b_key :: "string option"
  b_secret :: "string option"
  b_firstName :: "string option"
  b_lastName :: "string option"
  b_email :: "string option"
  b_phone :: "string option"
  b_type :: "string option"
  b_businessName :: "string option"
  b_ssn :: "string option"
  b_dateOfBirth :: "string option"
  b_address1 :: "string option"
  b_city :: "string option"
  b_state :: "string option"
  b_postalCode :: "string option"
  b_name :: "string option"
  b_routingNumber :: "string option"
  b_accountNumber :: "string option"
  b_accountType :: "string option"
  b_sourceFundingSourceUrl :: "string option"
  b_destinationFundingSourceUrl :: "string option"
  b_amount :: "rat option"
  b_currency :: "string option"
  b_allowUnverified :: "bool option"
  b_id :: "string option"
  b_topic :: jsvalue
  b_resourceId :: "string option"
  b_timestamp :: "string option"
  b_links :: "links option"
  b_created :: "string option"

definition empty_body :: reqBody where
  "empty_body =
     \<lparr>b_key = None, b_secret = None, b_firstName = None, b_lastName = None, b_email = None,
      b_phone = None, b_type = None, b_businessName = None, b_ssn = None,
      b_dateOfBirth = None, b_address1 = None, b_city = None, b_state = None,
      b_postalCode = None, b_name = None, b_routingNumber = None, b_accountNumber = None,
      b_accountType = None, b_sourceFundingSourceUrl = None,
      b_destinationFundingSourceUrl = None, b_amount = None, b_currency = None,
      b_allowUnverified = None, b_id = None, b_topic = Undefined, b_resourceId = None,
      b_timestamp = None, b_links = None, b_created = None\<rparr>"

datatype httpMethod = GET | POST | DELETE

record request =
  req_method :: httpMethod
  path :: "string list"
  query_includeUnverified :: "string option"
  reqbody :: reqBody

record fundingSourceRecord =
  fs_id :: string
  fs_url :: string
  fs_name :: "string option"
  fs_type :: "string option"
  fs_bankAccountType :: "string option"
  fs_status :: "string option"
  fs_bankName :: "string option"
  fs_created :: "string option"

record eligibleCustomer =
  ec_id :: string
  ec_url :: string
  ec_firstName :: "string option"
  ec_lastName :: "string option"
  ec_email :: "string option"
  ec_phone :: "string option"
  ec_type :: string
  ec_status :: "string option"
  ec_fundingSources :: "fundingSourceRecord list"

text \<open>The JSON of a reply, one constructor for each shape a handler sends.\<close>

datatype json =
    ErrorJ string
  | ConfigOkJ "int option"
  | CustomerCreatedJ customerRecord
  | CustomersJ "customerRecord list"
  | CustomerJ customerRecord doc
  | VerifiedJ "string option" customerRecord
  | FundingSourceCreatedJ fundingSourceRecord
  | FundingSourcesJ "fundingSourceRecord list"
  | IavTokenJ "string option"
  | TransferCreatedJ transferRecord
  | ReceivedJ
  | WebhooksJ "webhookRecord list"
  | WebhooksClearedJ
  | EligibleJ "eligibleCustomer list"

datatype reply = Reply nat json

fun status :: "reply \<Rightarrow> nat" where
  "status (Reply n j) = n"

fun sent :: "reply \<Rightarrow> json" where
  "sent (Reply n j) = j"

section \<open>Configuration\<close>

definition post_config :: "provider \<Rightarrow> request \<Rightarrow> state \<Rightarrow> reply \<times> state" where
  "post_config prov req st =
     (let k = b_key (reqbody req); s = b_secret (reqbody req) in
      if \<not> truthy k \<or> \<not> truthy s then
        (Reply 400 (ErrorJ ''Both API key and secret are required''), st)
      else
        let st1 = st\<lparr>dwollaConfig := (dwollaConfig st)\<lparr>key := k, secret := s\<rparr>\<rparr>;
            st2 = initializeDwollaClient (str k) (str s) st1
        in case getValidAccessToken prov st2 of
             (Inl e, st3) \<Rightarrow>
               (Reply 400 (ErrorJ (if message e = [] then ''Failed to configure Dwolla credentials''
                                   else message e)), st3)
           | (Inr tk, st3) \<Rightarrow>
               (Reply 200 (ConfigOkJ (expiresIn (dwollaConfig st3))),
                st3\<lparr>customersStore := [], transfersStore := [], webhooksStore := []\<rparr>))"

section \<open>Customers\<close>

text \<open>
  \<^verbatim>\<open>customersStore.some(c => c.email.toLowerCase() === email.toLowerCase())\<close>: the
  records are visited in order; a record without an email makes the callback throw.
\<close>

fun emailExists ::
  "(string \<Rightarrow> string) \<Rightarrow> customerRecord list \<Rightarrow> string \<Rightarrow> exn + bool" where
  "emailExists toLowerCase [] email = Inr False"
| "emailExists toLowerCase (c # cs) email =
     (case c_email c of
        None \<Rightarrow> Inl (typeError ''Cannot read properties of undefined (reading 'toLowerCase')'')
      | Some e \<Rightarrow>
          if toLowerCase e = toLowerCase email then Inr True
          else emailExists toLowerCase cs email)"

definition phoneExists :: "customerRecord list \<Rightarrow> string \<Rightarrow> bool" where
  "phoneExists cs phone = list_ex (\<lambda>c. c_phone c = Some phone) cs"

text \<open>The message computed by the \<^verbatim>\<open>catch\<close> block of \<^verbatim>\<open>POST /api/customers\<close>.\<close>

definition create_customer_error :: "exn \<Rightarrow> string" where
  "create_customer_error e =
     (case embedded_errors e of
        Some errs \<Rightarrow> join ''. '' (map e_message errs)
      | None \<Rightarrow> if message e \<noteq> [] then message e else ''Failed to create customer'')"

definition post_customers ::
  "(string \<Rightarrow> string) \<Rightarrow> provider \<Rightarrow> request \<Rightarrow> state \<Rightarrow> reply \<times> state" where
  "post_customers toLowerCase prov req st =
     (let b = reqbody req in
      if \<not> truthy (b_firstName b) \<or> \<not> truthy (b_lastName b) \<or> \<not> truthy (b_email b) then
        (Reply 400 (ErrorJ ''First name, last name, and email are required''), st)
      else
        let firstName = str (b_firstName b); lastName = str (b_lastName b);
            email = str (b_email b); phone = b_phone b
        in case emailExists toLowerCase (customersStore st) email of
             Inl e \<Rightarrow> (Reply 400 (ErrorJ (create_customer_error e)), st)
           | Inr True \<Rightarrow> (Reply 400 (ErrorJ ''A customer with this email already exists''), st)
           | Inr False \<Rightarrow>
               if truthy phone \<and> phoneExists (customersStore st) (str phone) then
                 (Reply 400 (ErrorJ ''A customer with this phone number already exists''), st)
               else
                 let business = (b_type b = Some ''business'');
                     customerBody =
                       \<lparr>cb_firstName = firstName, cb_lastName = lastName, cb_email = email,
                        cb_phone = (if truthy phone then phone else None),
                        cb_type = (if business then Some ''business'' else None),
                        cb_businessName =
                          (if business then
                             Some (or_else (b_businessName b)
                                     (firstName @ '' '' @ lastName @ '' Business''))
                           else None),
                        cb_businessType =
                          (if business then Some ''soleProprietorship'' else None)\<rparr>
                 in (case dwollaRequest prov (Post ''customers'' (CustomerP customerBody)) st of
                      (Inl e, st1) \<Rightarrow> (Reply 400 (ErrorJ (create_customer_error e)), st1)
                    | (Inr resp, st1) \<Rightarrow>
                        let customerUrl = location resp in
                        (case dwollaRequest prov (Get customerUrl) st1 of
                           (Inl e, st2) \<Rightarrow> (Reply 400 (ErrorJ (create_customer_error e)), st2)
                         | (Inr details, st2) \<Rightarrow>
                             let customer = body details;
                                 customerRecord =
                                   \<lparr>c_id = last_segment customerUrl, c_url = customerUrl,
                                    c_firstName = firstName_of customer,
                                    c_lastName = lastName_of customer,
                                    c_email = email_of customer,
                                    c_phone = or_null phone,
                                    c_type = or_else (type_of customer) ''personal'',
                                    c_status = status_of customer,
                                    c_createdAt = created_of customer\<rparr>
                             in (Reply 201 (CustomerCreatedJ customerRecord),
                                 st2\<lparr>customersStore := customersStore st2 @ [customerRecord]\<rparr>))))"

text \<open>\<^verbatim>\<open>GET /api/customers\<close>: the registry is replaced by the provider's list.\<close>

definition customerRecord_of :: "customerDoc \<Rightarrow> customerRecord" where
  "customerRecord_of customer =
     \<lparr>c_id = last_segment (cd_self customer), c_url = cd_self customer,
      c_firstName = cd_firstName customer, c_lastName = cd_lastName customer,
      c_email = cd_email customer, c_phone = or_null (cd_phone customer),
      c_type = or_else (cd_type customer) ''personal'',
      c_status = cd_status customer, c_createdAt = cd_created customer\<rparr>"

definition get_customers :: "provider \<Rightarrow> request \<Rightarrow> state \<Rightarrow> reply \<times> state" where
  "get_customers prov req st =
     (case dwollaRequest prov (Get ''customers?limit=200'') st of
        (Inl e, st1) \<Rightarrow> (Reply 500 (ErrorJ ''Failed to list customers from Dwolla''), st1)
      | (Inr resp, st1) \<Rightarrow>
          let dwollaCustomers =
                (case embedded_customers (body resp) of None \<Rightarrow> [] | Some cs \<Rightarrow> cs);
              customers = map customerRecord_of dwollaCustomers
          in (Reply 200 (CustomersJ customers), st1\<lparr>customersStore := customers\<rparr>))"

text \<open>\<^verbatim>\<open>customersStore.find(c => c.id === id)\<close>.\<close>

definition find_customer :: "string \<Rightarrow> state \<Rightarrow> customerRecord option" where
  "find_customer i st = find (\<lambda>c. c_id c = i) (customersStore st)"

text \<open>\<^verbatim>\<open>localCustomer.status = s\<close>: the record found is a member of the store.\<close>

definition set_customer_status :: "string \<Rightarrow> string option \<Rightarrow> state \<Rightarrow> state" where
  "set_customer_status i s st =
     st\<lparr>customersStore := update_first (\<lambda>c. c_id c = i) (\<lambda>c. c\<lparr>c_status := s\<rparr>)
           (customersStore st)\<rparr>"

definition get_customer :: "provider \<Rightarrow> string \<Rightarrow> request \<Rightarrow> state \<Rightarrow> reply \<times> state" where
  "get_customer prov i req st =
     (case find_customer i st of
        None \<Rightarrow> (Reply 404 (ErrorJ ''Customer not found''), st)
      | Some localCustomer \<Rightarrow>
          (case dwollaRequest prov (Get (c_url localCustomer)) st of
             (Inl e, st1) \<Rightarrow> (Reply 500 (ErrorJ ''Failed to get customer details''), st1)
           | (Inr resp, st1) \<Rightarrow>
               let customer = body resp in
               (Reply 200 (CustomerJ (localCustomer\<lparr>c_status := status_of customer\<rparr>) customer),
                set_customer_status i (status_of customer) st1)))"

text \<open>The message of the \<^verbatim>\<open>catch\<close> blocks that only read the provider's error list.\<close>

definition provider_error :: "string \<Rightarrow> exn \<Rightarrow> string" where
  "provider_error dflt e =
     (case embedded_errors e of
        Some errs \<Rightarrow> join ''. '' (map e_message errs)
      | None \<Rightarrow> dflt)"

text \<open>
  The message of the reply is the template string
  \<^verbatim>\<open>Verification submitted. Customer status: ${updatedCustomer.status}\<close>; the reply
  \<open>VerifiedJ\<close> keeps the status that the template prints.
\<close>

definition post_verify :: "provider \<Rightarrow> string \<Rightarrow> request \<Rightarrow> state \<Rightarrow> reply \<times> state" where
  "post_verify prov i req st =
     (let b = reqbody req in
      case find_customer i st of
        None \<Rightarrow> (Reply 404 (ErrorJ ''Customer not found''), st)
      | Some localCustomer \<Rightarrow>
          let verificationBody =
                \<lparr>vb_firstName = c_firstName localCustomer,
                 vb_lastName = c_lastName localCustomer,
                 vb_email = c_email localCustomer,
                 vb_type = ''personal'',
                 vb_address1 = or_else (b_address1 b) ''123 Main St'',
                 vb_city = or_else (b_city b) ''San Francisco'',
                 vb_state = or_else (b_state b) ''CA'',
                 vb_postalCode = or_else (b_postalCode b) ''94105'',
                 vb_dateOfBirth = or_else (b_dateOfBirth b) ''1990-01-01'',
                 vb_ssn = or_else (b_ssn b) ''1234''\<rparr>
          in (case dwollaRequest prov
                    (Post (c_url localCustomer) (VerificationP verificationBody)) st of
               (Inl e, st1) \<Rightarrow>
                 (Reply 400 (ErrorJ (provider_error ''Failed to verify customer'' e)), st1)
             | (Inr posted, st1) \<Rightarrow>
                 (case dwollaRequest prov (Get (c_url localCustomer)) st1 of
                    (Inl e, st2) \<Rightarrow>
                      (Reply 400 (ErrorJ (provider_error ''Failed to verify customer'' e)), st2)
                  | (Inr updatedResponse, st2) \<Rightarrow>
                      let updatedCustomer = body updatedResponse in
                      (Reply 200
                         (VerifiedJ (status_of updatedCustomer)
                            (localCustomer\<lparr>c_status := status_of updatedCustomer\<rparr>)),
                       set_customer_status i (status_of updatedCustomer) st2))))"

section \<open>Funding sources\<close>

definition post_funding_sources ::
  "provider \<Rightarrow> string \<Rightarrow> request \<Rightarrow> state \<Rightarrow> reply \<times> state" where
  "post_funding_sources prov i req st =
     (let b = reqbody req in
      case find_customer i st of
        None \<Rightarrow> (Reply 404 (ErrorJ ''Customer not found''), st)
      | Some localCustomer \<Rightarrow>
          if \<not> truthy (b_name b) then
            (Reply 400 (ErrorJ ''Account nickname (name) is required''), st)
          else
            let fundingSourceBody =
                  \<lparr>fb_routingNumber = or_else (b_routingNumber b) ''222222226'',
                   fb_accountNumber = or_else (b_accountNumber b) ''123456789'',
                   fb_bankAccountType = or_else (b_accountType b) ''checking'',
                   fb_name = str (b_name b)\<rparr>
            in (case dwollaRequest prov
                      (Post (c_url localCustomer @ ''/funding-sources'')
                         (FundingSourceP fundingSourceBody)) st of
                 (Inl e, st1) \<Rightarrow>
                   (Reply 400 (ErrorJ (provider_error ''Failed to add funding source'' e)), st1)
               | (Inr resp, st1) \<Rightarrow>
                   let fundingSourceUrl = location resp in
                   (case dwollaRequest prov (Get fundingSourceUrl) st1 of
                      (Inl e, st2) \<Rightarrow>
                        (Reply 400 (ErrorJ (provider_error ''Failed to add funding source'' e)),
                         st2)
                    | (Inr fsResponse, st2) \<Rightarrow>
                        let fundingSource = body fsResponse in
                        (Reply 201
                           (FundingSourceCreatedJ
                              \<lparr>fs_id = last_segment fundingSourceUrl,
                               fs_url = fundingSourceUrl,
                               fs_name = name_of fundingSource,
                               fs_type = type_of fundingSource,
                               fs_bankAccountType = bankAccountType_of fundingSource,
                               fs_status = status_of fundingSource,
                               fs_bankName = bankName_of fundingSource,
                               fs_created = None\<rparr>), st2))))"

definition fundingSourceRecord_of :: "bool \<Rightarrow> fundingSourceDoc \<Rightarrow> fundingSourceRecord" where
  "fundingSourceRecord_of with_created fs =
     \<lparr>fs_id = last_segment (fd_self fs), fs_url = fd_self fs, fs_name = fd_name fs,
      fs_type = fd_type fs, fs_bankAccountType = fd_bankAccountType fs,
      fs_status = fd_status fs, fs_bankName = fd_bankName fs,
      fs_created = (if with_created then fd_created fs else None)\<rparr>"

definition get_funding_sources ::
  "provider \<Rightarrow> string \<Rightarrow> request \<Rightarrow> state \<Rightarrow> reply \<times> state" where
  "get_funding_sources prov i req st =
     (case find_customer i st of
        None \<Rightarrow> (Reply 404 (ErrorJ ''Customer not found''), st)
      | Some localCustomer \<Rightarrow>
          (case dwollaRequest prov (Get (c_url localCustomer @ ''/funding-sources'')) st of
             (Inl e, st1) \<Rightarrow> (Reply 500 (ErrorJ ''Failed to list funding sources''), st1)
           | (Inr resp, st1) \<Rightarrow>
               (case embedded_funding_sources (body resp) of
                  None \<Rightarrow> (Reply 500 (ErrorJ ''Failed to list funding sources''), st1)
                | Some fss \<Rightarrow>
                    (Reply 200
                       (FundingSourcesJ
                          (map (fundingSourceRecord_of True)
                             (filter (\<lambda>fs. \<not> fd_removed fs) fss))), st1))))"

definition post_iav_token :: "provider \<Rightarrow> string \<Rightarrow> request \<Rightarrow> state \<Rightarrow> reply \<times> state" where
  "post_iav_token prov i req st =
     (case find_customer i st of
        None \<Rightarrow> (Reply 404 (ErrorJ ''Customer not found''), st)
      | Some localCustomer \<Rightarrow>
          (case dwollaRequest prov (Post (c_url localCustomer @ ''/iav-token'') NoPayload) st of
             (Inl e, st1) \<Rightarrow> (Reply 500 (ErrorJ ''Failed to create IAV token''), st1)
           | (Inr resp, st1) \<Rightarrow> (Reply 200 (IavTokenJ (token_of (body resp))), st1)))"

section \<open>Transfers\<close>

text \<open>The message computed by the \<^verbatim>\<open>catch\<close> block of \<^verbatim>\<open>POST /api/transfers\<close>.\<close>

definition friendly :: "apiError \<Rightarrow> string" where
  "friendly e =
     (if e_code e = ''InsufficientFunds'' then ''Insufficient funds in source account.''
      else if e_code e = ''Invalid'' \<and> e_path e = ''/_links/source/href'' then
        ''Source funding source is not verified.''
      else if e_code e = ''Invalid'' \<and> e_path e = ''/_links/destination/href'' then
        ''Destination funding source is not verified.''
      else e_message e)"

definition create_transfer_error :: "exn \<Rightarrow> string" where
  "create_transfer_error e =
     (case embedded_errors e of
        Some errs \<Rightarrow> join ''. '' (map friendly errs)
      | None \<Rightarrow> ''Failed to create transfer'')"

text \<open>\<^verbatim>\<open>!amount\<close>: an absent amount and the number 0 are falsy.\<close>

definition truthy_amount :: "rat option \<Rightarrow> bool" where
  "truthy_amount a = (case a of None \<Rightarrow> False | Some n \<Rightarrow> n \<noteq> 0)"

definition amount_number :: "rat option \<Rightarrow> rat" where
  "amount_number a = (case a of None \<Rightarrow> 0 | Some n \<Rightarrow> n)"

text \<open>The last part of the handler: the transfer is submitted, fetched and stored.\<close>

definition submit_transfer ::
  "provider \<Rightarrow> string \<Rightarrow> string \<Rightarrow> rat \<Rightarrow> string option \<Rightarrow> state \<Rightarrow> reply \<times> state" where
  "submit_transfer prov src dst amount cur st =
     (let transferBody =
            \<lparr>tb_source = src, tb_destination = dst, tb_currency = or_else cur ''USD'',
             tb_value = amount\<rparr>
      in case dwollaRequest prov (Post ''transfers'' (TransferP transferBody)) st of
           (Inl e, st1) \<Rightarrow> (Reply 400 (ErrorJ (create_transfer_error e)), st1)
         | (Inr resp, st1) \<Rightarrow>
             let transferUrl = location resp in
             (case dwollaRequest prov (Get transferUrl) st1 of
                (Inl e, st2) \<Rightarrow> (Reply 400 (ErrorJ (create_transfer_error e)), st2)
              | (Inr transferResponse, st2) \<Rightarrow>
                  let transfer = body transferResponse;
                      transferRecord =
                        \<lparr>t_id = last_segment transferUrl, t_url = transferUrl,
                         t_status = status_of transfer, t_amount = amount_of transfer,
                         t_created = created_of transfer,
                         t_sourceFundingSourceUrl = src,
                         t_destinationFundingSourceUrl = dst\<rparr>
                  in (Reply 201 (TransferCreatedJ transferRecord),
                      st2\<lparr>transfersStore := transfersStore st2 @ [transferRecord]\<rparr>)))"

text \<open>The check of the destination, once its funding source has been fetched.\<close>

definition check_destination ::
  "provider \<Rightarrow> request \<Rightarrow> response \<Rightarrow> state \<Rightarrow> reply option \<times> state" where
  \<open>check_destination prov req destFs st =
     (let destFsStatus = status_of (body destFs) in
      if destFsStatus \<noteq> Some ''verified'' then
        if b_allowUnverified (reqbody req) \<noteq> Some True then
          (Some (Reply 400 (ErrorJ ''Destination funding source is not verified. Enable "Allow unverified" to send to unverified funding sources.'')), st)
        else
          let customerUrl = customer_link (body destFs) in
          if truthy customerUrl then
            (case dwollaRequest prov (Get (str customerUrl)) st of
               (Inl custErr, st1) \<Rightarrow>
                 (Some (Reply 400 (ErrorJ ''Could not verify the customer who owns the destination funding source.'')), st1)
             | (Inr customerResponse, st1) \<Rightarrow>
                 if status_of (body customerResponse) \<noteq> Some ''verified'' then
                   (Some (Reply 400 (ErrorJ ''Cannot send to unverified funding source - the customer who owns it is not verified.'')), st1)
                 else (None, st1))
          else (None, st)
      else (None, st))\<close>

definition post_transfers :: "provider \<Rightarrow> request \<Rightarrow> state \<Rightarrow> reply \<times> state" where
  "post_transfers prov req st =
     (let b = reqbody req in
      if \<not> truthy (b_sourceFundingSourceUrl b) \<or> \<not> truthy (b_destinationFundingSourceUrl b)
         \<or> \<not> truthy_amount (b_amount b) then
        (Reply 400 (ErrorJ ''Source funding source, destination funding source, and amount are required''), st)
      else if amount_number (b_amount b) \<le> 0 then
        (Reply 400 (ErrorJ ''Amount must be greater than 0''), st)
      else
        let src = str (b_sourceFundingSourceUrl b); dst = str (b_destinationFundingSourceUrl b)
        in case dwollaRequest prov (Get src) st of
             (Inl err, st1) \<Rightarrow> (Reply 400 (ErrorJ ''Invalid source funding source''), st1)
           | (Inr sourceFs, st1) \<Rightarrow>
               if status_of (body sourceFs) \<noteq> Some ''verified'' then
                 (Reply 400 (ErrorJ ''Source funding source is not verified. Only verified funding sources can send transfers.''), st1)
               else
                 (case dwollaRequest prov (Get dst) st1 of
                    (Inl err, st2) \<Rightarrow>
                      (Reply 400 (ErrorJ ''Invalid destination funding source''), st2)
                  | (Inr destFs, st2) \<Rightarrow>
                      (case check_destination prov req destFs st2 of
                         (Some rejected, st3) \<Rightarrow> (rejected, st3)
                       | (None, st3) \<Rightarrow>
                           submit_transfer prov src dst (amount_number (b_amount b))
                             (b_currency b) st3)))"

section \<open>Webhooks\<close>

definition customer_patch :: "string \<Rightarrow> customerRecord \<Rightarrow> customerRecord" where
  "customer_patch topic c =
     (let c1 = (if topic = ''customer_verified'' then c\<lparr>c_status := Some ''verified''\<rparr> else c);
          c2 = (if topic = ''customer_suspended'' then c1\<lparr>c_status := Some ''suspended''\<rparr>
                else c1);
          c3 = (if topic = ''customer_verification_document_needed'' then
                  c2\<lparr>c_status := Some ''document''\<rparr>
                else c2)
      in if topic = ''customer_reverification_needed'' then c3\<lparr>c_status := Some ''retry''\<rparr>
         else c3)"

definition transfer_patch :: "string \<Rightarrow> transferRecord \<Rightarrow> transferRecord" where
  "transfer_patch topic t =
     (let t1 = (if topic = ''transfer_completed'' then t\<lparr>t_status := Some ''processed''\<rparr>
                else t);
          t2 = (if topic = ''transfer_failed'' then t1\<lparr>t_status := Some ''failed''\<rparr> else t1)
      in if topic = ''transfer_cancelled'' then t2\<lparr>t_status := Some ''cancelled''\<rparr> else t2)"

definition link_customer :: "reqBody \<Rightarrow> string option" where
  "link_customer event = (case b_links event of None \<Rightarrow> None | Some l \<Rightarrow> customer_href l)"

definition link_resource :: "reqBody \<Rightarrow> string option" where
  "link_resource event = (case b_links event of None \<Rightarrow> None | Some l \<Rightarrow> resource_href l)"

definition update_customers :: "string \<Rightarrow> reqBody \<Rightarrow> state \<Rightarrow> state" where
  "update_customers topic event st =
     (if startsWith topic ''customer_'' then
        let customerUrl = link_customer event in
        if truthy customerUrl then
          st\<lparr>customersStore :=
               update_first (\<lambda>c. c_url c = str customerUrl) (customer_patch topic)
                 (customersStore st)\<rparr>
        else st
      else st)"

definition update_transfers :: "string \<Rightarrow> reqBody \<Rightarrow> state \<Rightarrow> state" where
  "update_transfers topic event st =
     (if startsWith topic ''transfer_'' then
        let transferUrl = link_resource event in
        if truthy transferUrl then
          st\<lparr>transfersStore :=
               update_first (\<lambda>t. t_url t = str transferUrl) (transfer_patch topic)
                 (transfersStore st)\<rparr>
        else st
      else st)"

text \<open>
  \<^verbatim>\<open>topic.startsWith\<close> exists only on a string: on any other value the call throws
  before a store is touched.
\<close>

definition updateLocalStoresFromWebhook :: "reqBody \<Rightarrow> state \<Rightarrow> exn + state" where
  "updateLocalStoresFromWebhook event st =
     (case b_topic event of
        String topic \<Rightarrow> Inr (update_transfers topic event (update_customers topic event st))
      | _ \<Rightarrow> Inl (typeError ''topic.startsWith is not a function''))"

definition webhookRecord_of :: "reqBody \<Rightarrow> int \<Rightarrow> webhookRecord" where
  "webhookRecord_of event now =
     \<lparr>w_id = (if truthy (b_id event) then GivenId (str (b_id event)) else LocalId now),
      w_topic = b_topic event,
      w_resourceId = b_resourceId event,
      w_timestamp =
        (if truthy (b_timestamp event) then GivenTime (str (b_timestamp event))
         else IsoTime now),
      w_links = b_links event,
      w_created =
        (if truthy (b_created event) then GivenTime (str (b_created event)) else IsoTime now)\<rparr>"

definition post_webhooks :: "request \<Rightarrow> state \<Rightarrow> reply \<times> state" where
  "post_webhooks req st =
     (let event = reqbody req;
          webhookRecord = webhookRecord_of event (clock st);
          unshifted = webhookRecord # webhooksStore st;
          st1 = st\<lparr>webhooksStore :=
                     (if length unshifted > 100 then take 100 unshifted else unshifted)\<rparr>
      in if truthy_value (b_topic event) \<and> b_links event \<noteq> None then
           (case updateLocalStoresFromWebhook event st1 of
              Inl error \<Rightarrow> (Reply 500 (ErrorJ ''Failed to process webhook''), st1)
            | Inr st2 \<Rightarrow> (Reply 200 ReceivedJ, st2))
         else (Reply 200 ReceivedJ, st1))"

definition get_webhooks :: "request \<Rightarrow> state \<Rightarrow> reply \<times> state" where
  "get_webhooks req st = (Reply 200 (WebhooksJ (webhooksStore st)), st)"

definition delete_webhooks :: "request \<Rightarrow> state \<Rightarrow> reply \<times> state" where
  "delete_webhooks req st = (Reply 200 WebhooksClearedJ, st\<lparr>webhooksStore := []\<rparr>)"

section \<open>Eligible customers\<close>

definition eligibleSources :: "bool \<Rightarrow> fundingSourceDoc list \<Rightarrow> fundingSourceDoc list" where
  "eligibleSources includeUnverified fss =
     (let allSources = filter (\<lambda>fs. \<not> fd_removed fs) fss in
      if includeUnverified then allSources
      else filter (\<lambda>fs. fd_status fs = Some ''verified'') allSources)"

definition eligibleCustomer_of :: "customerDoc \<Rightarrow> fundingSourceDoc list \<Rightarrow> eligibleCustomer" where
  "eligibleCustomer_of dwollaCustomer sources =
     \<lparr>ec_id = last_segment (cd_self dwollaCustomer), ec_url = cd_self dwollaCustomer,
      ec_firstName = cd_firstName dwollaCustomer, ec_lastName = cd_lastName dwollaCustomer,
      ec_email = cd_email dwollaCustomer, ec_phone = or_null (cd_phone dwollaCustomer),
      ec_type = or_else (cd_type dwollaCustomer) ''personal'',
      ec_status = cd_status dwollaCustomer,
      ec_fundingSources = map (fundingSourceRecord_of False) sources\<rparr>"

text \<open>The \<^verbatim>\<open>for\<close> loop over the provider's customers; a customer whose funding sources
  cannot be fetched or read is skipped.\<close>

fun eligible_loop ::
  "provider \<Rightarrow> bool \<Rightarrow> customerDoc list \<Rightarrow> eligibleCustomer list \<Rightarrow> state
     \<Rightarrow> eligibleCustomer list \<times> state" where
  "eligible_loop prov inc [] eligibleCustomers st = (eligibleCustomers, st)"
| "eligible_loop prov inc (dwollaCustomer # rest) eligibleCustomers st =
     (if cd_status dwollaCustomer \<noteq> Some ''verified'' then
        eligible_loop prov inc rest eligibleCustomers st
      else
        (case dwollaRequest prov (Get (cd_self dwollaCustomer @ ''/funding-sources'')) st of
           (Inl err, st1) \<Rightarrow> eligible_loop prov inc rest eligibleCustomers st1
         | (Inr fsResponse, st1) \<Rightarrow>
             (case embedded_funding_sources (body fsResponse) of
                None \<Rightarrow> eligible_loop prov inc rest eligibleCustomers st1
              | Some fss \<Rightarrow>
                  if length (eligibleSources inc fss) > 0 then
                    eligible_loop prov inc rest
                      (eligibleCustomers
                         @ [eligibleCustomer_of dwollaCustomer (eligibleSources inc fss)]) st1
                  else eligible_loop prov inc rest eligibleCustomers st1)))"

definition get_eligible :: "provider \<Rightarrow> request \<Rightarrow> state \<Rightarrow> reply \<times> state" where
  "get_eligible prov req st =
     (let includeUnverified = (query_includeUnverified req = Some ''true'') in
      case dwollaRequest prov (Get ''customers?limit=200'') st of
        (Inl e, st1) \<Rightarrow> (Reply 500 (ErrorJ ''Failed to get eligible customers''), st1)
      | (Inr customersResponse, st1) \<Rightarrow>
          let allCustomers =
                (case embedded_customers (body customersResponse) of
                   None \<Rightarrow> []
                 | Some cs \<Rightarrow> cs)
          in (case eligible_loop prov includeUnverified allCustomers [] st1 of
                (eligibleCustomers, st2) \<Rightarrow> (Reply 200 (EligibleJ eligibleCustomers), st2)))"

section \<open>Routing\<close>

text \<open>
  Express tries the routes in the order in which \<^verbatim>\<open>server.js\<close> registers them and
  runs the handler of the first whose method and path match; no handler of this
  server passes the request on. A path is its list of segments; a literal segment
  matches without regard to the case of ASCII letters, and \<open>Param\<close> is a
  \<^verbatim>\<open>:id\<close> segment, which matches any non-empty segment and binds it as it is written.
\<close>

datatype seg = Lit string | Param

datatype route =
    R_post_config | R_get_config_status
  | R_post_customers | R_get_customers | R_get_customer | R_post_verify
  | R_post_funding_sources | R_get_funding_sources | R_post_iav_token
  | R_get_me | R_get_me_funding_sources | R_get_me_balance
  | R_post_transfers | R_get_transfers | R_get_transfer
  | R_post_webhooks | R_get_webhooks | R_delete_webhooks
  | R_get_eligible

definition routes :: "(httpMethod \<times> seg list \<times> route) list" where
  "routes =
     [(POST, [Lit ''api'', Lit ''config''], R_post_config),
      (GET, [Lit ''api'', Lit ''config'', Lit ''status''], R_get_config_status),
      (POST, [Lit ''api'', Lit ''customers''], R_post_customers),
      (GET, [Lit ''api'', Lit ''customers''], R_get_customers),
      (GET, [Lit ''api'', Lit ''customers'', Param], R_get_customer),
      (POST, [Lit ''api'', Lit ''customers'', Param, Lit ''verify''], R_post_verify),
      (POST, [Lit ''api'', Lit ''customers'', Param, Lit ''funding-sources''],
         R_post_funding_sources),
      (GET, [Lit ''api'', Lit ''customers'', Param, Lit ''funding-sources''],
         R_get_funding_sources),
      (POST, [Lit ''api'', Lit ''customers'', Param, Lit ''iav-token''], R_post_iav_token),
      (GET, [Lit ''api'', Lit ''me''], R_get_me),
      (GET, [Lit ''api'', Lit ''me'', Lit ''funding-sources''], R_get_me_funding_sources),
      (GET, [Lit ''api'', Lit ''me'', Lit ''balance''], R_get_me_balance),
      (POST, [Lit ''api'', Lit ''transfers''], R_post_transfers),
      (GET, [Lit ''api'', Lit ''transfers''], R_get_transfers),
      (GET, [Lit ''api'', Lit ''transfers'', Param], R_get_transfer),
      (POST, [Lit ''api'', Lit ''webhooks''], R_post_webhooks),
      (GET, [Lit ''api'', Lit ''webhooks''], R_get_webhooks),
      (DELETE, [Lit ''api'', Lit ''webhooks''], R_delete_webhooks),
      (GET, [Lit ''api'', Lit ''customers'', Lit ''eligible''], R_get_eligible)]"

text \<open>The values bound to the \<^verbatim>\<open>:id\<close> segments when the pattern matches the path.\<close>

fun match_path :: "seg list \<Rightarrow> string list \<Rightarrow> string list option" where
  "match_path [] [] = Some []"
| "match_path (Lit s # ps) (x # xs) =
     (if ascii_lower s = ascii_lower x then match_path ps xs else None)"
| "match_path (Param # ps) (x # xs) =
     (if x = [] then None else map_option ((#) x) (match_path ps xs))"
| "match_path _ _ = None"

fun resolve_in ::
  "(httpMethod \<times> seg list \<times> route) list \<Rightarrow> httpMethod \<Rightarrow> string list
     \<Rightarrow> (route \<times> string list) option" where
  "resolve_in [] m p = None"
| "resolve_in ((m', pat, r) # rest) m p =
     (if m' = m then
        (case match_path pat p of
           Some params \<Rightarrow> Some (r, params)
         | None \<Rightarrow> resolve_in rest m p)
      else resolve_in rest m p)"

text \<open>One slash at the end of the path, that is an empty last segment, is ignored.\<close>

definition without_trailing_slash :: "string list \<Rightarrow> string list" where
  "without_trailing_slash p = (if p \<noteq> [] \<and> last p = [] then butlast p else p)"

definition resolve :: "httpMethod \<Rightarrow> string list \<Rightarrow> (route \<times> string list) option" where
  "resolve m p = resolve_in routes m (without_trailing_slash p)"

text \<open>\<^verbatim>\<open>req.params.id\<close>.\<close>

definition params_id :: "string list \<Rightarrow> string" where
  "params_id params = (case params of [] \<Rightarrow> [] | i # rest \<Rightarrow> i)"

text \<open>
  What the server does with a request. The handlers of \<^verbatim>\<open>GET /api/config/status\<close>,
  \<^verbatim>\<open>GET /api/me\<close>, \<^verbatim>\<open>GET /api/me/funding-sources\<close>,
  \<^verbatim>\<open>GET /api/me/balance\<close>, \<^verbatim>\<open>GET /api/transfers\<close> and \<^verbatim>\<open>GET /api/transfers/:id\<close>
  are not part of this development: a request that resolves to one of them is
  \<open>Elsewhere\<close>. A request that no route matches is \<open>Unmatched\<close>.
\<close>

datatype outcome = Handled "reply \<times> state" | Elsewhere route | Unmatched

fun handle ::
  "route \<Rightarrow> (string \<Rightarrow> string) \<Rightarrow> provider \<Rightarrow> string list \<Rightarrow> request \<Rightarrow> state
     \<Rightarrow> outcome" where
  "handle R_post_config toLowerCase prov ps req st = Handled (post_config prov req st)"
| "handle R_post_customers toLowerCase prov ps req st =
     Handled (post_customers toLowerCase prov req st)"
| "handle R_get_customers toLowerCase prov ps req st = Handled (get_customers prov req st)"
| "handle R_get_customer toLowerCase prov ps req st = Handled (get_customer prov (params_id ps) req st)"
| "handle R_post_verify toLowerCase prov ps req st = Handled (post_verify prov (params_id ps) req st)"
| "handle R_post_funding_sources toLowerCase prov ps req st =
     Handled (post_funding_sources prov (params_id ps) req st)"
| "handle R_get_funding_sources toLowerCase prov ps req st =
     Handled (get_funding_sources prov (params_id ps) req st)"
| "handle R_post_iav_token toLowerCase prov ps req st =
     Handled (post_iav_token prov (params_id ps) req st)"
| "handle R_post_transfers toLowerCase prov ps req st = Handled (post_transfers prov req st)"
| "handle R_post_webhooks toLowerCase prov ps req st = Handled (post_webhooks req st)"
| "handle R_get_webhooks toLowerCase prov ps req st = Handled (get_webhooks req st)"
| "handle R_delete_webhooks toLowerCase prov ps req st = Handled (delete_webhooks req st)"
| "handle R_get_eligible toLowerCase prov ps req st = Handled (get_eligible prov req st)"
| "handle r toLowerCase prov ps req st = Elsewhere r"

definition serve ::
  "(string \<Rightarrow> string) \<Rightarrow> provider \<Rightarrow> request \<Rightarrow> state \<Rightarrow> outcome" where
  "serve toLowerCase prov req st =
     (case resolve (req_method req) (path req) of
        None \<Rightarrow> Unmatched
      | Some (r, ps) \<Rightarrow> handle r toLowerCase prov ps req st)"

section \<open>Provider calls made by a run\<close>

text \<open>The \<^verbatim>\<open>POST\<close> calls of the trace: the submissions to the provider.\<close>

definition posts :: "state \<Rightarrow> call list" where
  "posts st = filter is_Post (trace st)"

section \<open>The eligible customers, as the specification words them\<close>

text \<open>
  A state in which requests can be made: the credentials are configured and the client
  is initialised.
\<close>

definition ready :: "state \<Rightarrow> bool" where
  "ready st = (truthy (key (dwollaConfig st)) \<and> truthy (secret (dwollaConfig st))
               \<and> dwollaClient st \<noteq> None)"

text \<open>
  Given the answers \<open>G\<close> of the provider to \<^verbatim>\<open>GET\<close> requests, the specification's
  list: keep the customers with status \<^verbatim>\<open>verified\<close>; for each, take its funding sources
  (none when they cannot be fetched or read), filter them by \<^verbatim>\<open>!removed\<close> and, unless
  unverified ones are included, by status \<^verbatim>\<open>verified\<close>; keep the customer if a funding
  source survives, with the surviving funding sources attached.
\<close>

definition sources_of :: "(string \<Rightarrow> exn + response) \<Rightarrow> customerDoc \<Rightarrow> fundingSourceDoc list" where
  "sources_of G c =
     (case G (cd_self c @ ''/funding-sources'') of
        Inl e \<Rightarrow> []
      | Inr r \<Rightarrow> (case embedded_funding_sources (body r) of None \<Rightarrow> [] | Some fss \<Rightarrow> fss))"

definition eligible_spec ::
  "(string \<Rightarrow> exn + response) \<Rightarrow> bool \<Rightarrow> customerDoc list \<Rightarrow> eligibleCustomer list" where
  "eligible_spec G inc cs =
     map (\<lambda>c. eligibleCustomer_of c (eligibleSources inc (sources_of G c)))
       (filter (\<lambda>c. cd_status c = Some ''verified'' \<and> eligibleSources inc (sources_of G c) \<noteq> [])
          cs)"

section \<open>Example inputs\<close>

text \<open>
  Concrete providers, states and requests on which the theorems below are evaluated:
  a provider that knows a verified source \<^verbatim>\<open>fs/src\<close>, an unverified funding source
  without an owner (\<^verbatim>\<open>fs/dst\<close>), an unverified one owned by the unverified customer
  \<^verbatim>\<open>customers/u1\<close> (\<^verbatim>\<open>fs/owned\<close>), and a provider that refuses everything.
\<close>

definition example_client :: client where
  "example_client = \<lparr>client_key = ''key'', client_secret = ''secret''\<rparr>"

definition source_doc :: "string \<Rightarrow> string option \<Rightarrow> string \<Rightarrow> fundingSourceDoc" where
  "source_doc url owner st =
     \<lparr>fd_self = url, fd_customer = owner, fd_name = Some ''Checking'', fd_type = Some ''bank'',
      fd_bankAccountType = Some ''checking'', fd_status = Some st,
      fd_bankName = Some ''Example Bank'', fd_created = None, fd_removed = False\<rparr>"

definition customer_doc :: "string \<Rightarrow> string \<Rightarrow> customerDoc" where
  "customer_doc url st =
     \<lparr>cd_self = url, cd_firstName = Some ''Ada'', cd_lastName = Some ''Lovelace'',
      cd_email = Some ''ada@example.com'', cd_phone = None, cd_type = Some ''personal'',
      cd_status = Some st, cd_created = None\<rparr>"

definition ok :: "doc \<Rightarrow> exn + response" where
  "ok d = Inr \<lparr>location = [], body = d\<rparr>"

fun example_answer :: "call \<Rightarrow> exn + response" where
  "example_answer (Get u) =
     (if u = ''fs/src'' then ok (FundingSourceB (source_doc ''fs/src'' None ''verified''))
      else if u = ''fs/dst'' then ok (FundingSourceB (source_doc ''fs/dst'' None ''unverified''))
      else if u = ''fs/owned'' then
        ok (FundingSourceB (source_doc ''fs/owned'' (Some ''customers/u1'') ''unverified''))
      else if u = ''customers/u1'' then ok (CustomerB (customer_doc ''customers/u1'' ''unverified''))
      else if u = ''transfers/t1'' then
        ok (TransferB \<lparr>td_status = Some ''pending'', td_amount = None, td_created = None\<rparr>)
      else Inl (Exn ''NotFound'' None))"
| "example_answer (Post u p) =
     (if u = ''transfers'' then Inr \<lparr>location = ''transfers/t1'', body = NoBody\<rparr>
      else Inl (Exn ''NotFound'' None))"
| "example_answer c = Inl (Exn ''NotFound'' None)"

definition example_provider :: provider where
  "example_provider =
     \<lparr>auth = (\<lambda>now calls cl. (Inr \<lparr>access_token = ''token-1'', expires_in = 3600\<rparr>, now + 5)),
      answer = (\<lambda>now calls c. (example_answer c, now + 5))\<rparr>"

definition offline_provider :: provider where
  "offline_provider =
     \<lparr>auth = (\<lambda>now calls cl. (Inl (Exn ''unauthorized'' None), now + 5)),
      answer = (\<lambda>now calls c. (Inl (Exn ''unreachable'' None), now + 5))\<rparr>"

definition configured :: state where
  "configured =
     \<lparr>dwollaConfig = \<lparr>key = Some ''key'', secret = Some ''secret'', accessToken = Some ''token-1'',
                       expiresIn = Some 3600, tokenCreatedAt = Some 1000\<rparr>,
      customersStore = [], transfersStore = [], webhooksStore = [],
      dwollaClient = Some example_client, clock = 2000, trace = []\<rparr>"

definition transfer_request :: "string \<Rightarrow> rat \<Rightarrow> bool option \<Rightarrow> request" where
  "transfer_request dst a allow =
     \<lparr>req_method = POST, path = [''api'', ''transfers''], query_includeUnverified = None,
      reqbody = empty_body\<lparr>b_sourceFundingSourceUrl := Some ''fs/src'',
                            b_destinationFundingSourceUrl := Some dst,
                            b_amount := Some a, b_allowUnverified := allow\<rparr>\<rparr>"

definition webhook_request :: "jsvalue \<Rightarrow> links option \<Rightarrow> request" where
  "webhook_request topic ls =
     \<lparr>req_method = POST, path = [''api'', ''webhooks''], query_includeUnverified = None,
      reqbody = empty_body\<lparr>b_topic := topic, b_links := ls\<rparr>\<rparr>"

definition ada :: customerRecord where
  "ada = \<lparr>c_id = ''c1'', c_url = ''customers/c1'', c_firstName = Some ''Ada'',
          c_lastName = Some ''Lovelace'', c_email = Some ''Ada@Example.com'',
          c_phone = Some ''5550100'', c_type = ''personal'', c_status = Some ''unverified'',
          c_createdAt = None\<rparr>"

text \<open>
  An instance of \<open>toLowerCase\<close> for the examples: it folds the ASCII letters and the
  letter E with acute accent, whose capital is the bytes C3 89 and whose small form is
  the bytes C3 A9 in UTF-8.
\<close>

fun example_toLowerCase :: "string \<Rightarrow> string" where
  "example_toLowerCase [] = []"
| "example_toLowerCase [c] = [lower_char c]"
| "example_toLowerCase (c # d # cs) =
     (if c = CHR 0xC3 \<and> d = CHR 0x89 then CHR 0xC3 # CHR 0xA9 # example_toLowerCase cs
      else lower_char c # example_toLowerCase (d # cs))"

definition eve :: customerRecord where
  "eve = \<lparr>c_id = ''c2'', c_url = ''customers/c2'', c_firstName = Some ''Eve'',
          c_lastName = Some ''Curie'', c_email = Some (CHR 0xC3 # CHR 0x89 # ''@x.com''),
          c_phone = None, c_type = ''personal'', c_status = Some ''unverified'',
          c_createdAt = None\<rparr>"

definition customer_request :: "string \<Rightarrow> string option \<Rightarrow> request" where
  "customer_request email phone =
     \<lparr>req_method = POST, path = [''api'', ''customers''], query_includeUnverified = None,
      reqbody = empty_body\<lparr>b_firstName := Some ''A'', b_lastName := Some ''B'',
                            b_email := Some email, b_phone := phone\<rparr>\<rparr>"

definition config_request :: request where
  "config_request =
     \<lparr>req_method = POST, path = [''api'', ''config''], query_includeUnverified = None,
      reqbody = empty_body\<lparr>b_key := Some ''key'', b_secret := Some ''secret''\<rparr>\<rparr>"

definition get_request :: "string list \<Rightarrow> request" where
  "get_request p = \<lparr>req_method = GET, path = p, query_includeUnverified = None, reqbody = empty_body\<rparr>"

definition numbered :: "nat \<Rightarrow> webhookRecord" where
  "numbered n =
     \<lparr>w_id = LocalId (int n), w_topic = String ''customer_created'', w_resourceId = None,
      w_timestamp = IsoTime (int n), w_links = None, w_created = IsoTime (int n)\<rparr>"

definition transfer_at :: "string \<Rightarrow> transferRecord" where
  "transfer_at url =
     \<lparr>t_id = last_segment url, t_url = url, t_status = Some ''pending'', t_amount = None,
      t_created = None, t_sourceFundingSourceUrl = ''fs/src'',
      t_destinationFundingSourceUrl = ''fs/dst''\<rparr>"


section \<open>Properties\<close>

lemmas example_defs = example_client_def source_doc_def customer_doc_def ok_def
  example_provider_def offline_provider_def configured_def transfer_request_def
  empty_body_def initial_state_def webhook_request_def ada_def customer_request_def
  config_request_def get_request_def transfer_at_def

lemmas token_defs = getValidAccessToken_def dwollaRequest_def isExpired_def tokenAge_def
  truthy_def num_def str_def

subsection \<open>What a provider call leaves alone\<close>

lemma getValidAccessToken_stores:
  assumes "getValidAccessToken prov st = (r, st')"
  shows "customersStore st' = customersStore st \<and> transfersStore st' = transfersStore st
       \<and> webhooksStore st' = webhooksStore st \<and> dwollaClient st' = dwollaClient st
       \<and> key (dwollaConfig st') = key (dwollaConfig st)
       \<and> secret (dwollaConfig st') = secret (dwollaConfig st)"
  using assms
  by (auto simp: getValidAccessToken_def split: if_splits option.splits prod.splits sum.splits)

lemma getValidAccessToken_posts:
  assumes "getValidAccessToken prov st = (r, st')"
  shows "filter is_Post (trace st') = filter is_Post (trace st)"
  using assms
  by (auto simp: getValidAccessToken_def split: if_splits option.splits prod.splits sum.splits)

lemma dwollaRequest_stores:
  assumes "dwollaRequest prov c st = (r, st')"
  shows "customersStore st' = customersStore st \<and> transfersStore st' = transfersStore st
       \<and> webhooksStore st' = webhooksStore st \<and> dwollaClient st' = dwollaClient st
       \<and> key (dwollaConfig st') = key (dwollaConfig st)
       \<and> secret (dwollaConfig st') = secret (dwollaConfig st)"
  using assms getValidAccessToken_stores
  by (fastforce simp: dwollaRequest_def split: option.splits prod.splits sum.splits)

lemma dwollaRequest_Get_posts:
  assumes "dwollaRequest prov (Get u) st = (r, st')"
  shows "filter is_Post (trace st') = filter is_Post (trace st)"
  using assms getValidAccessToken_posts
  by (fastforce simp: dwollaRequest_def split: option.splits prod.splits sum.splits)

lemma dwollaRequest_Get_posts':
  "dwollaRequest prov (Get u) st = (r, st') \<Longrightarrow> posts st' = posts st"
  by (simp add: posts_def dwollaRequest_Get_posts)

subsection \<open>Lists\<close>

lemma update_first_split:
  "\<forall>x \<in> set xs1. \<not> p x \<Longrightarrow> p x \<Longrightarrow> update_first p f (xs1 @ x # xs2) = xs1 @ f x # xs2"
  by (induction xs1) auto

lemma update_first_none: "\<forall>x \<in> set xs. \<not> p x \<Longrightarrow> update_first p f xs = xs"
  by (induction xs) auto

lemma length_update_first: "length (update_first p f xs) = length xs"
  by (induction xs) auto

subsection \<open>Routing\<close>

text \<open>The literal segments of the routes are in lower case already.\<close>

lemma route_literals:
  "ascii_lower ''api'' = ''api''" "ascii_lower ''config'' = ''config''"
  "ascii_lower ''status'' = ''status''" "ascii_lower ''customers'' = ''customers''"
  "ascii_lower ''verify'' = ''verify''" "ascii_lower ''funding-sources'' = ''funding-sources''"
  "ascii_lower ''iav-token'' = ''iav-token''" "ascii_lower ''me'' = ''me''"
  "ascii_lower ''balance'' = ''balance''" "ascii_lower ''transfers'' = ''transfers''"
  "ascii_lower ''webhooks'' = ''webhooks''" "ascii_lower ''eligible'' = ''eligible''"
  by (simp_all add: ascii_lower_def lower_char_def)

text \<open>The request line decides the handler; these are the routes of the handlers above.\<close>

lemma serve_routes:
  "req_method req = POST \<Longrightarrow> path req = [''api'', ''config'']
     \<Longrightarrow> serve toLowerCase prov req st = Handled (post_config prov req st)"
  "req_method req = POST \<Longrightarrow> path req = [''api'', ''customers'']
     \<Longrightarrow> serve toLowerCase prov req st = Handled (post_customers toLowerCase prov req st)"
  "req_method req = GET \<Longrightarrow> path req = [''api'', ''customers'', i] \<Longrightarrow> i \<noteq> []
     \<Longrightarrow> serve toLowerCase prov req st = Handled (get_customer prov i req st)"
  "req_method req = POST \<Longrightarrow> path req = [''api'', ''customers'', i, ''verify''] \<Longrightarrow> i \<noteq> []
     \<Longrightarrow> serve toLowerCase prov req st = Handled (post_verify prov i req st)"
  "req_method req = POST \<Longrightarrow> path req = [''api'', ''customers'', i, ''funding-sources'']
     \<Longrightarrow> i \<noteq> [] \<Longrightarrow> serve toLowerCase prov req st = Handled (post_funding_sources prov i req st)"
  "req_method req = GET \<Longrightarrow> path req = [''api'', ''customers'', i, ''funding-sources'']
     \<Longrightarrow> i \<noteq> [] \<Longrightarrow> serve toLowerCase prov req st = Handled (get_funding_sources prov i req st)"
  "req_method req = POST \<Longrightarrow> path req = [''api'', ''customers'', i, ''iav-token''] \<Longrightarrow> i \<noteq> []
     \<Longrightarrow> serve toLowerCase prov req st = Handled (post_iav_token prov i req st)"
  "req_method req = POST \<Longrightarrow> path req = [''api'', ''transfers'']
     \<Longrightarrow> serve toLowerCase prov req st = Handled (post_transfers prov req st)"
  "req_method req = POST \<Longrightarrow> path req = [''api'', ''webhooks'']
     \<Longrightarrow> serve toLowerCase prov req st = Handled (post_webhooks req st)"
  "req_method req = GET \<Longrightarrow> path req = [''api'', ''webhooks'']
     \<Longrightarrow> serve toLowerCase prov req st = Handled (get_webhooks req st)"
  "req_method req = DELETE \<Longrightarrow> path req = [''api'', ''webhooks'']
     \<Longrightarrow> serve toLowerCase prov req st = Handled (delete_webhooks req st)"
  by (simp_all add: serve_def resolve_def routes_def params_id_def without_trailing_slash_def
      route_literals)

lemma resolve_eligible:
  "resolve GET [''api'', ''customers'', ''eligible''] = Some (R_get_customer, [''eligible''])"
  by (simp add: resolve_def routes_def without_trailing_slash_def route_literals)

subsection \<open>Transfers to unverified funding sources\<close>

text \<open>
  C1 (amended). Take a \<^verbatim>\<open>POST /api/transfers\<close> request whose destination funding
  source, as the provider returns it to the handler after the source check, has a
  status other than \<^verbatim>\<open>verified\<close>. If \<^verbatim>\<open>allowUnverified\<close> is not \<^verbatim>\<open>true\<close>, the reply
  is a 400 and no \<^verbatim>\<open>POST\<close> is sent to the provider. If \<^verbatim>\<open>allowUnverified\<close> is
  \<^verbatim>\<open>true\<close> and the funding source carries a customer link, the handler fetches that
  customer: unless the fetch succeeds with status \<^verbatim>\<open>verified\<close>, the reply is a 400, no
  \<^verbatim>\<open>POST\<close> is sent, and the run of a request that passed the earlier checks ends
  with that fetch. So a transfer to an unverified funding source linked to an
  unverified customer is rejected even with \<^verbatim>\<open>allowUnverified = true\<close>. Nothing is
  promised for a funding source without a customer link.
\<close>

theorem unverified_destination_rejected:
  fixes prov req st
  defines "b \<equiv> reqbody req"
  defines "src \<equiv> str (b_sourceFundingSourceUrl b)"
  defines "dst \<equiv> str (b_destinationFundingSourceUrl b)"
  defines "cu \<equiv> (\<lambda>destFs. str (customer_link (body destFs)))"
  assumes dest: "dwollaRequest prov (Get dst) (snd (dwollaRequest prov (Get src) st))
                   = (Inr destFs, st2)"
    and unverified: "status_of (body destFs) \<noteq> Some ''verified''"
  shows "(b_allowUnverified b \<noteq> Some True \<longrightarrow>
            status (fst (post_transfers prov req st)) = 400
            \<and> posts (snd (post_transfers prov req st)) = posts st)
       \<and> (b_allowUnverified b = Some True \<and> truthy (customer_link (body destFs))
            \<and> (\<forall>c. fst (dwollaRequest prov (Get (cu destFs)) st2) = Inr c
                   \<longrightarrow> status_of (body c) \<noteq> Some ''verified'') \<longrightarrow>
            status (fst (post_transfers prov req st)) = 400
            \<and> posts (snd (post_transfers prov req st)) = posts st
            \<and> (truthy (b_sourceFundingSourceUrl b) \<and> truthy (b_destinationFundingSourceUrl b)
                 \<and> 0 < amount_number (b_amount b)
                 \<and> (\<exists>sourceFs. fst (dwollaRequest prov (Get src) st) = Inr sourceFs
                        \<and> status_of (body sourceFs) = Some ''verified'') \<longrightarrow>
                snd (post_transfers prov req st)
                  = snd (dwollaRequest prov (Get (cu destFs)) st2)))"
proof -
  obtain rs st1 where s: "dwollaRequest prov (Get src) st = (rs, st1)"
    by (cases "dwollaRequest prov (Get src) st")
  obtain rc st3 where c: "dwollaRequest prov (Get (cu destFs)) st2 = (rc, st3)"
    by (cases "dwollaRequest prov (Get (cu destFs)) st2")
  have d: "dwollaRequest prov (Get dst) st1 = (Inr destFs, st2)"
    using dest s by simp
  have p1: "posts st1 = posts st" using s by (rule dwollaRequest_Get_posts')
  have p2: "posts st2 = posts st" using d p1 by (simp add: dwollaRequest_Get_posts')
  have p3: "posts st3 = posts st" using c p2 by (simp add: dwollaRequest_Get_posts')
  show ?thesis
    using s c d p1 p2 p3 unverified
    unfolding post_transfers_def check_destination_def Let_def b_def [symmetric]
      src_def [symmetric] dst_def [symmetric]
    by (cases rs; cases rc)
       (auto simp: cu_def truthy_amount_def amount_number_def split: option.splits)
qed

text \<open>The theorem at \<^verbatim>\<open>fs/owned\<close>, whose owner \<^verbatim>\<open>customers/u1\<close> is unverified.\<close>

theorem unverified_destination_rejected_witness:
  "status (fst (post_transfers example_provider (transfer_request ''fs/owned'' 10 (Some True)) configured))
     = 400
   \<and> posts (snd (post_transfers example_provider (transfer_request ''fs/owned'' 10 (Some True)) configured))
     = []
   \<and> trace (snd (post_transfers example_provider (transfer_request ''fs/owned'' 10 (Some True)) configured))
     = [Get ''fs/src'', Get ''fs/owned'', Get ''customers/u1'']"
proof -
  let ?req = "transfer_request ''fs/owned'' 10 (Some True)"
  let ?destFs = "\<lparr>location = [],
                  body = FundingSourceB (source_doc ''fs/owned'' (Some ''customers/u1'') ''unverified'')\<rparr>"
  let ?st2 = "configured\<lparr>clock := 2010, trace := [Get ''fs/src'', Get ''fs/owned'']\<rparr>"
  have dest: "dwollaRequest example_provider (Get (str (b_destinationFundingSourceUrl (reqbody ?req))))
      (snd (dwollaRequest example_provider (Get (str (b_sourceFundingSourceUrl (reqbody ?req)))) configured))
      = (Inr ?destFs, ?st2)"
    by (simp add: example_defs token_defs)
  have unverified: "status_of (body ?destFs) \<noteq> Some ''verified''"
    by (simp add: example_defs)
  have cust: "dwollaRequest example_provider (Get (str (customer_link (body ?destFs)))) ?st2
      = (ok (CustomerB (customer_doc ''customers/u1'' ''unverified'')),
         configured\<lparr>clock := 2015,
           trace := [Get ''fs/src'', Get ''fs/owned'', Get ''customers/u1'']\<rparr>)"
    by (simp add: example_defs token_defs)
  have src: "fst (dwollaRequest example_provider (Get (str (b_sourceFundingSourceUrl (reqbody ?req))))
      configured) = ok (FundingSourceB (source_doc ''fs/src'' None ''verified''))"
    by (simp add: example_defs token_defs)
  show ?thesis
    using unverified_destination_rejected [OF dest unverified] cust src
    by (simp add: example_defs truthy_def amount_number_def posts_def)
qed

text \<open>
  The claim as first stated fails for \<^verbatim>\<open>fs/dst\<close>: the funding source is unverified and
  carries no customer link, \<^verbatim>\<open>allowUnverified\<close> is \<^verbatim>\<open>true\<close>, no customer is fetched
  and the transfer is submitted (201).
\<close>

theorem unverified_destination_counterexample:
  "b_allowUnverified (reqbody (transfer_request ''fs/dst'' 10 (Some True))) = Some True
   \<and> example_answer (Get ''fs/dst'')
       = ok (FundingSourceB (source_doc ''fs/dst'' None ''unverified''))
   \<and> status (fst (post_transfers example_provider (transfer_request ''fs/dst'' 10 (Some True)) configured))
       = 201
   \<and> trace (snd (post_transfers example_provider (transfer_request ''fs/dst'' 10 (Some True)) configured))
       = [Get ''fs/src'', Get ''fs/dst'',
          Post ''transfers'' (TransferP \<lparr>tb_source = ''fs/src'', tb_destination = ''fs/dst'',
                                        tb_currency = ''USD'', tb_value = 10\<rparr>),
          Get ''transfers/t1'']"
  by (simp add: post_transfers_def check_destination_def submit_transfer_def Let_def
      truthy_amount_def amount_number_def or_else_def example_defs token_defs)

subsection \<open>The reply to a webhook\<close>

text \<open>
  C2 (amended). The reply to \<^verbatim>\<open>POST /api/webhooks\<close> is 200 with \<^verbatim>\<open>{received: true}\<close>
  whenever processing does not throw. Processing throws exactly when the topic is
  truthy but not a string and \<^verbatim>\<open>_links\<close> is truthy; the reply is then 500 with
  \<^verbatim>\<open>{error: 'Failed to process webhook'}\<close>.
\<close>

theorem webhook_reply:
  "fst (post_webhooks req st)
     = (if truthy_value (b_topic (reqbody req)) \<and> b_links (reqbody req) \<noteq> None
           \<and> \<not> is_String (b_topic (reqbody req))
        then Reply 500 (ErrorJ ''Failed to process webhook'')
        else Reply 200 ReceivedJ)"
  by (cases "b_topic (reqbody req)")
     (simp_all add: post_webhooks_def Let_def updateLocalStoresFromWebhook_def)

theorem webhook_reply_witness:
  "fst (post_webhooks
          (webhook_request (String ''customer_created'')
             (Some \<lparr>customer_href = None, resource_href = None\<rparr>))
          (initial_state 0))
     = Reply 200 ReceivedJ
   \<and> fst (post_webhooks (webhook_request Object (Some \<lparr>customer_href = None, resource_href = None\<rparr>))
          (initial_state 0))
     = Reply 500 (ErrorJ ''Failed to process webhook'')"
  using webhook_reply [of "webhook_request (String ''customer_created'')
             (Some \<lparr>customer_href = None, resource_href = None\<rparr>)" "initial_state 0"]
    webhook_reply [of "webhook_request Object (Some \<lparr>customer_href = None, resource_href = None\<rparr>)"
      "initial_state 0"]
  by (simp add: example_defs)

text \<open>The claim as first stated fails for the body \<^verbatim>\<open>{topic: 5, _links: {}}\<close>.\<close>

theorem webhook_reply_counterexample:
  "fst (post_webhooks
          (webhook_request (Number 5) (Some \<lparr>customer_href = None, resource_href = None\<rparr>))
          (initial_state 0))
     = Reply 500 (ErrorJ ''Failed to process webhook'')"
  by (simp add: post_webhooks_def updateLocalStoresFromWebhook_def Let_def example_defs)

subsection \<open>Token refresh\<close>

text \<open>Without configured credentials the function throws and the state is as it was.\<close>

lemma getValidAccessToken_unconfigured:
  "\<not> truthy (key (dwollaConfig st)) \<or> \<not> truthy (secret (dwollaConfig st))
     \<Longrightarrow> getValidAccessToken prov st
           = (Inl (Exn ''Dwolla credentials not configured. Please set up API key and secret.''
                     None), st)"
  by (auto simp: getValidAccessToken_def)

text \<open>
  C3. For configured credentials (key and secret set, the client initialised, as
  \<^verbatim>\<open>POST /api/config\<close> leaves them), \<^verbatim>\<open>getValidAccessToken\<close> requests a new token
  from the provider exactly when no token is held or the token's age in seconds is at
  least \<^verbatim>\<open>expiresIn - 60\<close>, and makes no request otherwise. For a held token, calls
  made at any two times at which the age is below \<^verbatim>\<open>expiresIn - 60\<close> return the same
  token and leave the state, and so the calls made to the provider, as they were.
\<close>

theorem token_refresh_condition:
  assumes "truthy (key (dwollaConfig st))" and "truthy (secret (dwollaConfig st))"
    and "dwollaClient st = Some cl"
  shows "(trace (snd (getValidAccessToken prov st)) = trace st @ [AuthClient cl])
           = (\<not> truthy (accessToken (dwollaConfig st))
              \<or> (of_int (clock st - num (tokenCreatedAt (dwollaConfig st))) / 1000 :: rat)
                  \<ge> of_int (num (expiresIn (dwollaConfig st)) - 60))
       \<and> (trace (snd (getValidAccessToken prov st)) \<noteq> trace st @ [AuthClient cl]
            \<longrightarrow> trace (snd (getValidAccessToken prov st)) = trace st)
       \<and> (\<forall>t1 t2. truthy (accessToken (dwollaConfig st))
              \<and> (of_int (t1 - num (tokenCreatedAt (dwollaConfig st))) / 1000 :: rat)
                  < of_int (num (expiresIn (dwollaConfig st)) - 60)
              \<and> (of_int (t2 - num (tokenCreatedAt (dwollaConfig st))) / 1000 :: rat)
                  < of_int (num (expiresIn (dwollaConfig st)) - 60)
            \<longrightarrow> getValidAccessToken prov (st\<lparr>clock := t1\<rparr>)
                  = (Inr (accessToken (dwollaConfig st)), st\<lparr>clock := t1\<rparr>)
              \<and> getValidAccessToken prov (st\<lparr>clock := t2\<rparr>)
                  = (Inr (accessToken (dwollaConfig st)), st\<lparr>clock := t2\<rparr>))"
  using assms
  by (auto simp: getValidAccessToken_def isExpired_def tokenAge_def
      split: prod.splits sum.splits)

theorem token_refresh_condition_witness:
  "trace (snd (getValidAccessToken example_provider configured)) = []
   \<and> getValidAccessToken example_provider (configured\<lparr>clock := 3000\<rparr>)
       = (Inr (Some ''token-1''), configured\<lparr>clock := 3000\<rparr>)
   \<and> getValidAccessToken example_provider (configured\<lparr>clock := 3540999\<rparr>)
       = (Inr (Some ''token-1''), configured\<lparr>clock := 3540999\<rparr>)
   \<and> trace (snd (getValidAccessToken example_provider (configured\<lparr>clock := 3541000\<rparr>)))
       = [AuthClient example_client]"
proof -
  have k: "truthy (key (dwollaConfig configured))" "truthy (secret (dwollaConfig configured))"
    and c: "dwollaClient configured = Some example_client"
    by (simp_all add: example_defs truthy_def)
  have k': "truthy (key (dwollaConfig (configured\<lparr>clock := 3541000\<rparr>)))"
    "truthy (secret (dwollaConfig (configured\<lparr>clock := 3541000\<rparr>)))"
    and c': "dwollaClient (configured\<lparr>clock := 3541000\<rparr>) = Some example_client"
    by (simp_all add: example_defs truthy_def)
  note fresh = token_refresh_condition [OF k c, of example_provider]
  note stale = token_refresh_condition [OF k' c', of example_provider]
  from fresh have "trace (snd (getValidAccessToken example_provider configured)) = []"
    by (simp add: example_defs truthy_def num_def)
  moreover from fresh [THEN conjunct2, THEN conjunct2, THEN spec [of _ 3000],
      THEN spec [of _ 3540999]]
  have "getValidAccessToken example_provider (configured\<lparr>clock := 3000\<rparr>)
       = (Inr (Some ''token-1''), configured\<lparr>clock := 3000\<rparr>)
     \<and> getValidAccessToken example_provider (configured\<lparr>clock := 3540999\<rparr>)
       = (Inr (Some ''token-1''), configured\<lparr>clock := 3540999\<rparr>)"
    by (simp add: example_defs truthy_def num_def)
  moreover from stale have "trace (snd (getValidAccessToken example_provider (configured\<lparr>clock := 3541000\<rparr>)))
       = [AuthClient example_client]"
    by (simp add: example_defs truthy_def num_def)
  ultimately show ?thesis by simp
qed

subsection \<open>Duplicate customers\<close>

lemma emailExists_duplicate:
  "\<exists>c \<in> set cs. \<exists>e. c_email c = Some e \<and> toLowerCase e = toLowerCase email
     \<Longrightarrow> emailExists toLowerCase cs email \<noteq> Inr False"
  by (induction cs) (auto split: option.splits)

text \<open>
  C4. Whatever function \<^verbatim>\<open>String.prototype.toLowerCase\<close> is: a
  \<^verbatim>\<open>POST /api/customers\<close> request whose email and the email of a record of the
  registry have the same lower-case form, or whose non-empty phone equals the phone of
  a record, is answered with 400; the state is unchanged, so no call to the provider is
  made and the registry is as before.
\<close>

theorem duplicate_customer_rejected:
  assumes "(\<exists>c \<in> set (customersStore st). \<exists>e m. c_email c = Some e
               \<and> b_email (reqbody req) = Some m \<and> toLowerCase e = toLowerCase m)
         \<or> (\<exists>c \<in> set (customersStore st). \<exists>p. p \<noteq> [] \<and> b_phone (reqbody req) = Some p
               \<and> c_phone c = Some p)"
  shows "status (fst (post_customers toLowerCase prov req st)) = 400
       \<and> snd (post_customers toLowerCase prov req st) = st"
proof (cases "emailExists toLowerCase (customersStore st) (str (b_email (reqbody req)))")
  case (Inl e)
  then show ?thesis by (simp add: post_customers_def Let_def)
next
  case (Inr found)
  show ?thesis
  proof (cases found)
    case True
    with Inr show ?thesis by (simp add: post_customers_def Let_def)
  next
    case False
    with Inr have "\<not> (\<exists>c \<in> set (customersStore st). \<exists>e. c_email c = Some e
        \<and> toLowerCase e = toLowerCase (str (b_email (reqbody req))))"
      using emailExists_duplicate [of "customersStore st" toLowerCase "str (b_email (reqbody req))"] by auto
    with assms obtain c p where "c \<in> set (customersStore st)" "p \<noteq> []"
      "b_phone (reqbody req) = Some p" "c_phone c = Some p"
      by (auto simp: str_def)
    then have "truthy (b_phone (reqbody req))
        \<and> phoneExists (customersStore st) (str (b_phone (reqbody req)))"
      by (auto simp: truthy_def str_def phoneExists_def list_ex_iff)
    with Inr False show ?thesis by (simp add: post_customers_def Let_def)
  qed
qed

theorem duplicate_customer_rejected_witness:
  "status (fst (post_customers example_toLowerCase example_provider
                  (customer_request ''ada@example.com'' None)
                  (configured\<lparr>customersStore := [ada]\<rparr>))) = 400
   \<and> snd (post_customers example_toLowerCase example_provider
            (customer_request ''ada@example.com'' None)
            (configured\<lparr>customersStore := [ada]\<rparr>)) = configured\<lparr>customersStore := [ada]\<rparr>
   \<and> status (fst (post_customers example_toLowerCase example_provider
                  (customer_request (CHR 0xC3 # CHR 0xA9 # ''@x.com'') None)
                  (configured\<lparr>customersStore := [ada, eve]\<rparr>))) = 400
   \<and> snd (post_customers example_toLowerCase example_provider
            (customer_request (CHR 0xC3 # CHR 0xA9 # ''@x.com'') None)
            (configured\<lparr>customersStore := [ada, eve]\<rparr>))
       = configured\<lparr>customersStore := [ada, eve]\<rparr>
   \<and> status (fst (post_customers example_toLowerCase example_provider
                  (customer_request ''bob@example.com'' (Some ''5550100''))
                  (configured\<lparr>customersStore := [ada]\<rparr>))) = 400
   \<and> snd (post_customers example_toLowerCase example_provider
            (customer_request ''bob@example.com'' (Some ''5550100''))
            (configured\<lparr>customersStore := [ada]\<rparr>)) = configured\<lparr>customersStore := [ada]\<rparr>"
proof -
  let ?one = "configured\<lparr>customersStore := [ada]\<rparr>"
  let ?two = "configured\<lparr>customersStore := [ada, eve]\<rparr>"
  let ?accent = "customer_request (CHR 0xC3 # CHR 0xA9 # ''@x.com'') None"
  have low: "example_toLowerCase ''Ada@Example.com'' = example_toLowerCase ''ada@example.com''"
    by (simp add: lower_char_def)
  have acc: "example_toLowerCase (CHR 0xC3 # CHR 0x89 # ''@x.com'')
      = example_toLowerCase (CHR 0xC3 # CHR 0xA9 # ''@x.com'')"
    by (simp add: lower_char_def)
  have e: "(\<exists>c \<in> set (customersStore ?one). \<exists>e m. c_email c = Some e
              \<and> b_email (reqbody (customer_request ''ada@example.com'' None)) = Some m
              \<and> example_toLowerCase e = example_toLowerCase m)
         \<or> (\<exists>c \<in> set (customersStore ?one). \<exists>p. p \<noteq> []
              \<and> b_phone (reqbody (customer_request ''ada@example.com'' None)) = Some p
              \<and> c_phone c = Some p)"
    using low by (simp add: example_defs)
  have a: "(\<exists>c \<in> set (customersStore ?two). \<exists>e m. c_email c = Some e
              \<and> b_email (reqbody ?accent) = Some m
              \<and> example_toLowerCase e = example_toLowerCase m)
         \<or> (\<exists>c \<in> set (customersStore ?two). \<exists>p. p \<noteq> []
              \<and> b_phone (reqbody ?accent) = Some p \<and> c_phone c = Some p)"
    using acc by (simp add: example_defs eve_def)
  have p: "(\<exists>c \<in> set (customersStore ?one). \<exists>e m. c_email c = Some e
              \<and> b_email (reqbody (customer_request ''bob@example.com'' (Some ''5550100''))) = Some m
              \<and> example_toLowerCase e = example_toLowerCase m)
         \<or> (\<exists>c \<in> set (customersStore ?one). \<exists>p. p \<noteq> []
              \<and> b_phone (reqbody (customer_request ''bob@example.com'' (Some ''5550100''))) = Some p
              \<and> c_phone c = Some p)"
    by (simp add: example_defs)
  show ?thesis
    using duplicate_customer_rejected [of ?one "customer_request ''ada@example.com'' None"
        example_toLowerCase example_provider, OF e]
      duplicate_customer_rejected [of ?two ?accent example_toLowerCase example_provider, OF a]
      duplicate_customer_rejected [of ?one "customer_request ''bob@example.com'' (Some ''5550100'')"
        example_toLowerCase example_provider, OF p]
    by simp
qed

subsection \<open>Amounts that are not positive\<close>

text \<open>
  C5. What the code does with a \<^verbatim>\<open>POST /api/transfers\<close> request that has source and
  destination present and an amount \<open>a \<le> 0\<close>: the reply is 400 and the state is
  unchanged, so no call to the provider is made. For \<open>a < 0\<close> the body is
  \<^verbatim>\<open>{error: 'Amount must be greater than 0'}\<close>, as the test \<^verbatim>\<open>amount <= 0\<close> has it.
  For \<open>a = 0\<close> the test \<^verbatim>\<open>!amount\<close> of the presence check comes first and the body is
  its message, not the one that the test \<^verbatim>\<open>amount <= 0\<close> was written to give.
\<close>

theorem nonpositive_amount_rejected:
  assumes "truthy (b_sourceFundingSourceUrl (reqbody req))"
    and "truthy (b_destinationFundingSourceUrl (reqbody req))"
    and "b_amount (reqbody req) = Some a" and "a \<le> 0"
  shows "post_transfers prov req st
           = (Reply 400 (ErrorJ (if a = 0
                then ''Source funding source, destination funding source, and amount are required''
                else ''Amount must be greater than 0'')), st)"
  using assms by (simp add: post_transfers_def truthy_amount_def amount_number_def)

theorem nonpositive_amount_rejected_witness:
  "post_transfers example_provider (transfer_request ''fs/dst'' (- 5) None) configured
     = (Reply 400 (ErrorJ ''Amount must be greater than 0''), configured)
   \<and> post_transfers example_provider (transfer_request ''fs/dst'' 0 None) configured
     = (Reply 400 (ErrorJ ''Source funding source, destination funding source, and amount are required''),
        configured)"
proof -
  have s: "truthy (b_sourceFundingSourceUrl (reqbody (transfer_request ''fs/dst'' a None)))"
    and d: "truthy (b_destinationFundingSourceUrl (reqbody (transfer_request ''fs/dst'' a None)))"
    and a: "b_amount (reqbody (transfer_request ''fs/dst'' a None)) = Some a" for a
    by (simp_all add: example_defs truthy_def)
  have neg: "(- 5 :: rat) \<le> 0" and zero: "(0 :: rat) \<le> 0" by simp_all
  show ?thesis
    using nonpositive_amount_rejected [OF s d a neg, of example_provider configured]
      nonpositive_amount_rejected [OF s d a zero, of example_provider configured]
    by simp
qed

text \<open>The request with the amount 0, which is present and not positive.\<close>

theorem zero_amount_reply:
  "truthy (b_sourceFundingSourceUrl (reqbody (transfer_request ''fs/dst'' 0 None)))
   \<and> truthy (b_destinationFundingSourceUrl (reqbody (transfer_request ''fs/dst'' 0 None)))
   \<and> b_amount (reqbody (transfer_request ''fs/dst'' 0 None)) = Some 0
   \<and> sent (fst (post_transfers example_provider (transfer_request ''fs/dst'' 0 None) configured))
       = ErrorJ ''Source funding source, destination funding source, and amount are required''
   \<and> sent (fst (post_transfers example_provider (transfer_request ''fs/dst'' 0 None) configured))
       \<noteq> ErrorJ ''Amount must be greater than 0''"
  by (simp add: post_transfers_def truthy_amount_def truthy_def Let_def example_defs)

subsection \<open>The webhook store\<close>

lemma update_customers_other:
  "transfersStore (update_customers topic event st) = transfersStore st
   \<and> webhooksStore (update_customers topic event st) = webhooksStore st"
  by (simp add: update_customers_def Let_def)

lemma update_transfers_other:
  "customersStore (update_transfers topic event st) = customersStore st
   \<and> webhooksStore (update_transfers topic event st) = webhooksStore st"
  by (simp add: update_transfers_def Let_def)

lemma updateLocalStoresFromWebhook_webhooks:
  "updateLocalStoresFromWebhook event st = Inr st' \<Longrightarrow> webhooksStore st' = webhooksStore st"
  by (auto simp: updateLocalStoresFromWebhook_def update_customers_other update_transfers_other
      split: jsvalue.splits)

lemma post_webhooks_store:
  "webhooksStore (snd (post_webhooks req st))
     = take 100 (webhookRecord_of (reqbody req) (clock st) # webhooksStore st)"
  by (auto simp: post_webhooks_def Let_def updateLocalStoresFromWebhook_webhooks
      split: sum.splits)

text \<open>
  C6. After receiving an event the webhook store holds at most 100 records; listing
  and clearing keep a store of at most 100 records within the bound; and when the
  store holds 100 records, receiving an event puts the new record first and drops
  exactly the last of the previous 100, the other 99 keeping their order.
\<close>

theorem webhook_store_bounded:
  "length (webhooksStore (snd (post_webhooks req st))) \<le> 100
   \<and> (length (webhooksStore st) \<le> 100 \<longrightarrow>
        length (webhooksStore (snd (get_webhooks req st))) \<le> 100
        \<and> length (webhooksStore (snd (delete_webhooks req st))) \<le> 100)
   \<and> (length (webhooksStore st) = 100 \<longrightarrow>
        webhooksStore (snd (post_webhooks req st))
          = webhookRecord_of (reqbody req) (clock st) # butlast (webhooksStore st))"
proof -
  have "take 99 xs = butlast xs" if "length xs = 100" for xs :: "webhookRecord list"
    using that by (simp add: butlast_conv_take)
  then show ?thesis
    by (simp add: post_webhooks_store get_webhooks_def delete_webhooks_def)
qed

theorem webhook_store_bounded_witness:
  "length (webhooksStore (snd (post_webhooks (webhook_request (String ''customer_created'') None)
                                 (configured\<lparr>webhooksStore := map numbered [0..<100]\<rparr>))))
     \<le> 100
   \<and> webhooksStore (snd (post_webhooks (webhook_request (String ''customer_created'') None)
                            (configured\<lparr>webhooksStore := map numbered [0..<100]\<rparr>)))
       = webhookRecord_of (reqbody (webhook_request (String ''customer_created'') None)) 2000
           # map numbered [0..<99]"
proof -
  let ?st = "configured\<lparr>webhooksStore := map numbered [0..<100]\<rparr>"
  have len: "length (webhooksStore ?st) = 100" by simp
  have cut: "butlast (webhooksStore ?st) = map numbered [0..<99]"
    by (simp add: butlast_conv_take take_map)
  have time: "clock ?st = 2000" by (simp add: configured_def)
  show ?thesis
    using webhook_store_bounded [of "webhook_request (String ''customer_created'') None" ?st]
      len cut time
    by simp
qed

subsection \<open>Transfers patched by webhooks\<close>

text \<open>
  C7. Take an event with topic \<^verbatim>\<open>transfer_completed\<close> and resource link \<open>u\<close>. The reply
  is 200 and the customers registry is unchanged. If \<open>u\<close> is not empty and a record of
  the transfers registry has the url \<open>u\<close>, the first such record gets the status
  \<^verbatim>\<open>processed\<close> and every other record is unchanged; if no record has the url \<open>u\<close>,
  the transfers registry is unchanged.
\<close>

theorem transfer_completed_webhook:
  assumes topic: "b_topic (reqbody req) = String ''transfer_completed''"
    and links: "b_links (reqbody req) = Some l"
    and href: "resource_href l = Some u"
  shows "fst (post_webhooks req st) = Reply 200 ReceivedJ
       \<and> customersStore (snd (post_webhooks req st)) = customersStore st
       \<and> (\<forall>ts1 t ts2. u \<noteq> [] \<and> transfersStore st = ts1 @ t # ts2 \<and> t_url t = u
              \<and> (\<forall>x \<in> set ts1. t_url x \<noteq> u)
            \<longrightarrow> transfersStore (snd (post_webhooks req st))
                  = ts1 @ t\<lparr>t_status := Some ''processed''\<rparr> # ts2)
       \<and> ((\<forall>t \<in> set (transfersStore st). t_url t \<noteq> u)
            \<longrightarrow> transfersStore (snd (post_webhooks req st)) = transfersStore st)"
proof -
  let ?st1 = "st\<lparr>webhooksStore :=
                  take 100 (webhookRecord_of (reqbody req) (clock st) # webhooksStore st)\<rparr>"
  have no_customer: "\<not> startsWith ''transfer_completed'' ''customer_''"
    by (simp add: startsWith_def)
  have is_transfer: "startsWith ''transfer_completed'' ''transfer_''"
    by (simp add: startsWith_def)
  have patch: "transfer_patch ''transfer_completed'' = (\<lambda>t. t\<lparr>t_status := Some ''processed''\<rparr>)"
    by (rule ext) (simp add: transfer_patch_def)
  have run: "post_webhooks req st
      = (Reply 200 ReceivedJ,
         (if u \<noteq> [] then
            ?st1\<lparr>transfersStore :=
                   update_first (\<lambda>t. t_url t = u) (\<lambda>t. t\<lparr>t_status := Some ''processed''\<rparr>)
                     (transfersStore st)\<rparr>
          else ?st1))"
    using topic links href no_customer is_transfer
    by (simp add: post_webhooks_def Let_def updateLocalStoresFromWebhook_def
        update_customers_def update_transfers_def link_resource_def truthy_def str_def patch
        cong: if_cong)
  show ?thesis
    by (simp add: run update_first_split update_first_none)
qed

theorem transfer_completed_webhook_witness:
  "transfersStore
     (snd (post_webhooks
             (webhook_request (String ''transfer_completed'')
                (Some \<lparr>customer_href = None, resource_href = Some ''transfers/t2''\<rparr>))
             (configured\<lparr>transfersStore := [transfer_at ''transfers/t1'',
                                              transfer_at ''transfers/t2'']\<rparr>)))
     = [transfer_at ''transfers/t1'',
        (transfer_at ''transfers/t2'')\<lparr>t_status := Some ''processed''\<rparr>]
   \<and> transfersStore
     (snd (post_webhooks
             (webhook_request (String ''transfer_completed'')
                (Some \<lparr>customer_href = None, resource_href = Some ''transfers/t9''\<rparr>))
             (configured\<lparr>transfersStore := [transfer_at ''transfers/t1'',
                                              transfer_at ''transfers/t2'']\<rparr>)))
     = [transfer_at ''transfers/t1'', transfer_at ''transfers/t2'']"
proof -
  let ?st = "configured\<lparr>transfersStore := [transfer_at ''transfers/t1'',
                                              transfer_at ''transfers/t2'']\<rparr>"
  let ?req = "\<lambda>u. webhook_request (String ''transfer_completed'')
                (Some \<lparr>customer_href = None, resource_href = Some u\<rparr>)"
  have topic: "b_topic (reqbody (?req u)) = String ''transfer_completed''"
    and links: "b_links (reqbody (?req u)) = Some \<lparr>customer_href = None, resource_href = Some u\<rparr>"
    and href: "resource_href \<lparr>customer_href = None, resource_href = Some u\<rparr> = Some u" for u
    by (simp_all add: webhook_request_def empty_body_def)
  have split: "''transfers/t2'' \<noteq> [] \<and> transfersStore ?st
        = [transfer_at ''transfers/t1''] @ transfer_at ''transfers/t2'' # []
      \<and> t_url (transfer_at ''transfers/t2'') = ''transfers/t2''
      \<and> (\<forall>x \<in> set [transfer_at ''transfers/t1'']. t_url x \<noteq> ''transfers/t2'')"
    by (simp add: transfer_at_def)
  have unmatched: "\<forall>t \<in> set (transfersStore ?st). t_url t \<noteq> ''transfers/t9''"
    by (simp add: transfer_at_def)
  note hit = transfer_completed_webhook [OF topic links href, of "''transfers/t2''" ?st,
      THEN conjunct2, THEN conjunct2, THEN conjunct1, THEN spec, THEN spec, THEN spec, THEN mp,
      OF split]
  note miss = transfer_completed_webhook [OF topic links href, of "''transfers/t9''" ?st,
      THEN conjunct2, THEN conjunct2, THEN conjunct2, THEN mp, OF unmatched]
  show ?thesis using hit miss by simp
qed

subsection \<open>The route of the eligible customers\<close>

text \<open>
  The handler of the eligible customers computes the specification's list whenever the
  provider grants tokens and answers each \<^verbatim>\<open>GET\<close> by its url alone.
\<close>

lemma getValidAccessToken_ready:
  assumes auth_ok: "\<And>now calls cl. \<exists>tok t. auth prov now calls cl = (Inr tok, t)"
    and "ready st"
  shows "\<exists>tk st'. getValidAccessToken prov st = (Inr tk, st') \<and> ready st'"
proof -
  from \<open>ready st\<close> obtain cl where cl: "dwollaClient st = Some cl"
    and k: "truthy (key (dwollaConfig st))" "truthy (secret (dwollaConfig st))"
    by (auto simp: ready_def)
  obtain tok t where a: "auth prov (clock st) (trace st) cl = (Inr tok, t)"
    using auth_ok by blast
  show ?thesis
    using cl k a by (simp add: getValidAccessToken_def ready_def)
qed

lemma dwollaRequest_steady:
  assumes auth_ok: "\<And>now calls cl. \<exists>tok t. auth prov now calls cl = (Inr tok, t)"
    and get: "\<And>now calls u. fst (answer prov now calls (Get u)) = G u"
    and "ready st"
  shows "\<exists>st'. dwollaRequest prov (Get u) st = (G u, st') \<and> ready st'"
proof -
  obtain tk st1 where t: "getValidAccessToken prov st = (Inr tk, st1)" and r: "ready st1"
    using getValidAccessToken_ready [OF auth_ok \<open>ready st\<close>] by blast
  from r obtain cl where cl: "dwollaClient st1 = Some cl"
    by (auto simp: ready_def)
  obtain x t' where a: "answer prov (clock st1) (trace st1) (Get u) = (x, t')"
    by (cases "answer prov (clock st1) (trace st1) (Get u)")
  with get [of "clock st1" "trace st1" u] have "x = G u" by simp
  with t cl a r show ?thesis
    by (simp add: dwollaRequest_def ready_def)
qed

lemma eligible_loop_steady:
  assumes auth_ok: "\<And>now calls cl. \<exists>tok t. auth prov now calls cl = (Inr tok, t)"
    and get: "\<And>now calls u. fst (answer prov now calls (Get u)) = G u"
  shows "ready st \<Longrightarrow>
     fst (eligible_loop prov inc cs acc st) = acc @ eligible_spec G inc cs"
proof (induction cs arbitrary: acc st)
  case Nil
  then show ?case by (simp add: eligible_spec_def)
next
  case (Cons c cs)
  obtain st1 where run: "dwollaRequest prov (Get (cd_self c @ ''/funding-sources'')) st
      = (G (cd_self c @ ''/funding-sources''), st1)" and r1: "ready st1"
    using dwollaRequest_steady [OF auth_ok get Cons.prems] by blast
  have tail: "eligible_spec G inc (c # cs)
      = (if cd_status c = Some ''verified'' \<and> eligibleSources inc (sources_of G c) \<noteq> []
         then [eligibleCustomer_of c (eligibleSources inc (sources_of G c))] else [])
        @ eligible_spec G inc cs"
    by (simp add: eligible_spec_def)
  show ?case
  proof (cases "cd_status c = Some ''verified''")
    case False
    then show ?thesis using Cons.IH [OF Cons.prems] by (simp add: tail)
  next
    case True
    show ?thesis
    proof (cases "G (cd_self c @ ''/funding-sources'')")
      case (Inl e)
      then have "sources_of G c = []" by (simp add: sources_of_def)
      then have "eligibleSources inc (sources_of G c) = []"
        by (simp add: eligibleSources_def)
      with True Inl run show ?thesis using Cons.IH [OF r1] by (simp add: tail)
    next
      case (Inr r)
      show ?thesis
      proof (cases "embedded_funding_sources (body r)")
        case None
        with Inr have "sources_of G c = []" by (simp add: sources_of_def)
        then have "eligibleSources inc (sources_of G c) = []"
          by (simp add: eligibleSources_def)
        with True Inr None run show ?thesis using Cons.IH [OF r1] by (simp add: tail)
      next
        case (Some fss)
        with Inr have "sources_of G c = fss" by (simp add: sources_of_def)
        with True Inr Some run show ?thesis using Cons.IH [OF r1] by (simp add: tail)
      qed
    qed
  qed
qed

lemma get_eligible_steady:
  assumes auth_ok: "\<And>now calls cl. \<exists>tok t. auth prov now calls cl = (Inr tok, t)"
    and get: "\<And>now calls u. fst (answer prov now calls (Get u)) = G u"
    and "ready st"
    and listed: "G ''customers?limit=200'' = Inr r" "embedded_customers (body r) = Some cs"
  shows "fst (get_eligible prov req st)
           = Reply 200 (EligibleJ (eligible_spec G (query_includeUnverified req = Some ''true'') cs))"
proof -
  obtain st1 where run: "dwollaRequest prov (Get ''customers?limit=200'') st
      = (G ''customers?limit=200'', st1)" and r1: "ready st1"
    using dwollaRequest_steady [OF auth_ok get \<open>ready st\<close>] by blast
  have "fst (eligible_loop prov (query_includeUnverified req = Some ''true'') cs [] st1)
      = eligible_spec G (query_includeUnverified req = Some ''true'') cs"
    using eligible_loop_steady [OF auth_ok get r1] by simp
  with run listed show ?thesis
    by (auto simp: get_eligible_def Let_def split: prod.splits)
qed

text \<open>
  C8. \<^verbatim>\<open>GET /api/customers/eligible\<close> never reaches the handler of the eligible
  customers: the route \<^verbatim>\<open>GET /api/customers/:id\<close> is registered before it and takes
  the request with \<^verbatim>\<open>id = 'eligible'\<close>. Unless the registry holds a customer with that
  id, the reply is 404 \<^verbatim>\<open>{error: 'Customer not found'}\<close>, whatever the provider holds.
\<close>

theorem eligible_route_shadowed:
  assumes "req_method req = GET" and "path req = [''api'', ''customers'', ''eligible'']"
  shows "serve toLowerCase prov req st = Handled (get_customer prov ''eligible'' req st)
       \<and> ((\<forall>c \<in> set (customersStore st). c_id c \<noteq> ''eligible'') \<longrightarrow>
            serve toLowerCase prov req st = Handled (Reply 404 (ErrorJ ''Customer not found''), st))"
proof -
  have run: "serve toLowerCase prov req st = Handled (get_customer prov ''eligible'' req st)"
    using assms by (simp add: serve_def resolve_eligible params_id_def)
  have "get_customer prov ''eligible'' req st = (Reply 404 (ErrorJ ''Customer not found''), st)"
    if "\<forall>c \<in> set (customersStore st). c_id c \<noteq> ''eligible''"
  proof -
    from that have "find (\<lambda>c. c_id c = ''eligible'') (customersStore st) = None"
      by (simp add: find_None_iff)
    then show ?thesis by (simp add: get_customer_def find_customer_def)
  qed
  with run show ?thesis by simp
qed

theorem eligible_route_shadowed_witness:
  "serve ascii_lower example_provider (get_request [''api'', ''customers'', ''eligible'']) configured
     = Handled (Reply 404 (ErrorJ ''Customer not found''), configured)"
proof -
  have m: "req_method (get_request [''api'', ''customers'', ''eligible'']) = GET"
    and p: "path (get_request [''api'', ''customers'', ''eligible''])
              = [''api'', ''customers'', ''eligible'']"
    by (simp_all add: get_request_def)
  have none: "\<forall>c \<in> set (customersStore configured). c_id c \<noteq> ''eligible''"
    by (simp add: configured_def)
  show ?thesis
    using eligible_route_shadowed [OF m p, of ascii_lower example_provider configured,
        THEN conjunct2, THEN mp, OF none] .
qed

subsection \<open>A failed configuration\<close>

text \<open>
  C9. If \<^verbatim>\<open>POST /api/config\<close> is given a key and a secret, a token has to be requested
  (none is held, or the held one is within 60 seconds of its expiry) and the provider
  refuses the request, then the reply is 400, the customers, transfers and webhooks
  registries keep their contents, and \<^verbatim>\<open>dwollaConfig.key\<close> and \<^verbatim>\<open>dwollaConfig.secret\<close>
  hold the new values.
\<close>

theorem config_failure_keeps_registries:
  assumes k: "b_key (reqbody req) = Some k" "k \<noteq> []"
    and s: "b_secret (reqbody req) = Some s" "s \<noteq> []"
    and expired: "\<not> truthy (accessToken (dwollaConfig st))
                  \<or> tokenAge (dwollaConfig st) (clock st)
                      \<ge> of_int (num (expiresIn (dwollaConfig st)) - 60)"
    and fails: "fst (auth prov (clock st) (trace st) \<lparr>client_key = k, client_secret = s\<rparr>) = Inl e"
  shows "status (fst (post_config prov req st)) = 400
       \<and> customersStore (snd (post_config prov req st)) = customersStore st
       \<and> transfersStore (snd (post_config prov req st)) = transfersStore st
       \<and> webhooksStore (snd (post_config prov req st)) = webhooksStore st
       \<and> key (dwollaConfig (snd (post_config prov req st))) = Some k
       \<and> secret (dwollaConfig (snd (post_config prov req st))) = Some s"
proof -
  obtain t where a: "auth prov (clock st) (trace st) \<lparr>client_key = k, client_secret = s\<rparr> = (Inl e, t)"
    using fails by (cases "auth prov (clock st) (trace st) \<lparr>client_key = k, client_secret = s\<rparr>") auto
  show ?thesis
    using k s expired a
    by (simp add: post_config_def Let_def initializeDwollaClient_def getValidAccessToken_def
        isExpired_def tokenAge_def truthy_def str_def)
qed

theorem config_failure_keeps_registries_witness:
  "status (fst (post_config offline_provider config_request ((initial_state 0)\<lparr>customersStore := [ada]\<rparr>)))
     = 400
   \<and> customersStore (snd (post_config offline_provider config_request
                             ((initial_state 0)\<lparr>customersStore := [ada]\<rparr>))) = [ada]
   \<and> key (dwollaConfig (snd (post_config offline_provider config_request
                                ((initial_state 0)\<lparr>customersStore := [ada]\<rparr>)))) = Some ''key''
   \<and> secret (dwollaConfig (snd (post_config offline_provider config_request
                                   ((initial_state 0)\<lparr>customersStore := [ada]\<rparr>))))
       = Some ''secret''"
proof -
  let ?st = "(initial_state 0)\<lparr>customersStore := [ada]\<rparr>"
  have k: "b_key (reqbody config_request) = Some ''key''" "''key'' \<noteq> []"
    and s: "b_secret (reqbody config_request) = Some ''secret''" "''secret'' \<noteq> []"
    by (simp_all add: config_request_def empty_body_def)
  have expired: "\<not> truthy (accessToken (dwollaConfig ?st))
      \<or> tokenAge (dwollaConfig ?st) (clock ?st) \<ge> of_int (num (expiresIn (dwollaConfig ?st)) - 60)"
    by (simp add: initial_state_def truthy_def)
  have fails: "fst (auth offline_provider (clock ?st) (trace ?st)
      \<lparr>client_key = ''key'', client_secret = ''secret''\<rparr>) = Inl (Exn ''unauthorized'' None)"
    by (simp add: offline_provider_def)
  show ?thesis
    using config_failure_keeps_registries [OF k s expired fails] by simp
qed

subsection \<open>Customers unknown to the registry\<close>

text \<open>
  C10. For an id that no record of the customers registry has, the five customer
  routes reply 404 \<^verbatim>\<open>{error: 'Customer not found'}\<close> and leave the state, and with it
  the calls made to the provider, unchanged.
\<close>

theorem unknown_customer_not_found:
  assumes "\<forall>c \<in> set (customersStore st). c_id c \<noteq> i"
  shows "get_customer prov i req st = (Reply 404 (ErrorJ ''Customer not found''), st)
       \<and> post_verify prov i req st = (Reply 404 (ErrorJ ''Customer not found''), st)
       \<and> post_funding_sources prov i req st = (Reply 404 (ErrorJ ''Customer not found''), st)
       \<and> get_funding_sources prov i req st = (Reply 404 (ErrorJ ''Customer not found''), st)
       \<and> post_iav_token prov i req st = (Reply 404 (ErrorJ ''Customer not found''), st)"
proof -
  have "find (\<lambda>c. c_id c = i) (customersStore st) = None"
    using assms by (simp add: find_None_iff)
  then have none: "find_customer i st = None"
    by (simp add: find_customer_def)
  show ?thesis
    by (simp add: none get_customer_def post_verify_def post_funding_sources_def
        get_funding_sources_def post_iav_token_def)
qed

theorem unknown_customer_not_found_witness:
  "get_customer example_provider ''c2'' (get_request [''api'', ''customers'', ''c2''])
     (configured\<lparr>customersStore := [ada]\<rparr>)
     = (Reply 404 (ErrorJ ''Customer not found''), configured\<lparr>customersStore := [ada]\<rparr>)
   \<and> post_iav_token example_provider ''c2'' (get_request [''api'', ''customers'', ''c2'', ''iav-token''])
     (configured\<lparr>customersStore := [ada]\<rparr>)
     = (Reply 404 (ErrorJ ''Customer not found''), configured\<lparr>customersStore := [ada]\<rparr>)"
proof -
  have absent: "\<forall>c \<in> set (customersStore (configured\<lparr>customersStore := [ada]\<rparr>)). c_id c \<noteq> ''c2''"
    by (simp add: ada_def)
  show ?thesis
    using unknown_customer_not_found [OF absent, of example_provider] by simp
qed

end
